theory Spec2Isabelle
  imports Main "HOL-Library.Word"
begin

unbundle bit_operations_syntax

section \<open>The Boolean.prototype built-in object of JerryScript\<close>

text \<open>
  A shallow embedding of \<^verbatim>\<open>ecma-builtin-boolean-prototype-object.c\<close>: the routines
  \<^verbatim>\<open>valueOf\<close> and \<^verbatim>\<open>toString\<close>, the lazy instantiation of the object's
  built-in properties, the routine dispatcher and the lookup of a routine's length.

  The file includes the engine's headers, which are not part of the source at hand. What
  the functions of the file need from them (the value representation, the object model,
  the helpers they call) is declared below; each such declaration says so.
\<close>

subsection \<open>Faults\<close>

text \<open>
  \<^verbatim>\<open>JERRY_ASSERT\<close> and \<^verbatim>\<open>JERRY_UNREACHABLE\<close> stop the engine. A function that can
  reach one returns \<open>jerry_fault + 'a\<close>; the number is the line of the assertion in the
  source file, so that each assertion of the file is a fault of its own.
\<close>

datatype jerry_fault = Assertion_failed nat | Unreachable nat

subsection \<open>Magic strings and strings\<close>

text \<open>
  Modelled from the spec: the enumeration \<^verbatim>\<open>ecma_magic_string_id_t\<close> is declared in a
  header that is not part of the source. The constructors are the enumerators the file
  names, and \<open>ECMA_MAGIC_STRING_OTHER\<close> stands for all the others. Enumerators are
  compared with \<open>=\<close>, as C compares them with \<^verbatim>\<open>==\<close> and in \<^verbatim>\<open>switch\<close>. Their
  numeric values are not known: where the order of two identifiers matters (the binary
  search), the numbering is a parameter \<open>num\<close>.
\<close>

datatype ecma_magic_string_id_t =
    ECMA_MAGIC_STRING_CONSTRUCTOR
  | ECMA_MAGIC_STRING_TO_STRING_UL
  | ECMA_MAGIC_STRING_VALUE_OF_UL
  | ECMA_MAGIC_STRING_BOOLEAN_UL
  | ECMA_MAGIC_STRING_TRUE
  | ECMA_MAGIC_STRING_FALSE
  | ECMA_MAGIC_STRING_OTHER nat

text \<open>
  Modelled from the spec: \<^verbatim>\<open>ecma_string_t\<close> and the interning subsystem
  (\<^verbatim>\<open>is_interned(str) -> Option<StringId>\<close>) are not part of the source. A string is
  an interned magic string, which holds its identifier, or any other sequence of
  characters.
\<close>

datatype ecma_string_t = Magic_string ecma_magic_string_id_t | Chars_string string

definition ecma_get_magic_string :: "ecma_magic_string_id_t \<Rightarrow> ecma_string_t" where
  "ecma_get_magic_string string_id = Magic_string string_id"

definition ecma_is_string_magic :: "ecma_string_t \<Rightarrow> ecma_magic_string_id_t option" where
  "ecma_is_string_magic s = (case s of Magic_string string_id \<Rightarrow> Some string_id | Chars_string _ \<Rightarrow> None)"

text \<open>
  Modelled from the spec: the characters of the two magic strings that \<^verbatim>\<open>toString\<close>
  returns, the literal strings "true" and "false" of the spec. The table of the magic
  strings' characters is not part of the source; no other entry of it is given.
\<close>

fun ecma_string_chars :: "ecma_string_t \<Rightarrow> string option" where
  "ecma_string_chars (Chars_string cs) = Some cs"
| "ecma_string_chars (Magic_string ECMA_MAGIC_STRING_TRUE) = Some ''true''"
| "ecma_string_chars (Magic_string ECMA_MAGIC_STRING_FALSE) = Some ''false''"
| "ecma_string_chars (Magic_string _) = None"

subsection \<open>Values and completion values\<close>

text \<open>
  Modelled from the spec: the value representation is declared in a header that is not
  part of the source. The spec's \<^verbatim>\<open>Value\<close> is a tagged union of undefined, null,
  booleans, numbers, string references and object references; \<^verbatim>\<open>ecma_value_t\<close> holds
  the tag in \<^verbatim>\<open>value_type\<close> and the payload in \<^verbatim>\<open>value\<close>. Simple values are the
  enumeration \<^verbatim>\<open>ecma_simple_value_t\<close>; a number is the 64 bits of its IEEE double.

  An object reference names the object by what made it: a built-in object, the function
  object of a built-in routine, a standard error object, or any other object of the heap.
\<close>

datatype ecma_builtin_id_t =
    ECMA_BUILTIN_ID_BOOLEAN
  | ECMA_BUILTIN_ID_BOOLEAN_PROTOTYPE
  | ECMA_BUILTIN_ID_OTHER nat

datatype ecma_standard_error_t = ECMA_ERROR_TYPE | ECMA_ERROR_OTHER nat

datatype ecma_object_ptr =
    Builtin_object ecma_builtin_id_t
  | Routine_function_object ecma_builtin_id_t ecma_magic_string_id_t
  | Standard_error_object ecma_standard_error_t
  | Heap_object nat

datatype ecma_simple_value_t =
    ECMA_SIMPLE_VALUE_EMPTY
  | ECMA_SIMPLE_VALUE_UNDEFINED
  | ECMA_SIMPLE_VALUE_NULL
  | ECMA_SIMPLE_VALUE_FALSE
  | ECMA_SIMPLE_VALUE_TRUE

datatype ecma_type_t = ECMA_TYPE_SIMPLE | ECMA_TYPE_NUMBER | ECMA_TYPE_STRING | ECMA_TYPE_OBJECT

datatype ecma_value_t =
    Simple_value ecma_simple_value_t
  | Number_value "64 word"
  | String_value ecma_string_t
  | Object_value ecma_object_ptr

fun value_type :: "ecma_value_t \<Rightarrow> ecma_type_t" where
  "value_type (Simple_value _) = ECMA_TYPE_SIMPLE"
| "value_type (Number_value _) = ECMA_TYPE_NUMBER"
| "value_type (String_value _) = ECMA_TYPE_STRING"
| "value_type (Object_value _) = ECMA_TYPE_OBJECT"

definition ecma_make_simple_value :: "ecma_simple_value_t \<Rightarrow> ecma_value_t" where
  "ecma_make_simple_value sv = Simple_value sv"

definition ecma_make_string_value :: "ecma_string_t \<Rightarrow> ecma_value_t" where
  "ecma_make_string_value s = String_value s"

definition ecma_make_object_value :: "ecma_object_ptr \<Rightarrow> ecma_value_t" where
  "ecma_make_object_value p = Object_value p"

definition value_undefined :: ecma_value_t where
  "value_undefined = Simple_value ECMA_SIMPLE_VALUE_UNDEFINED"

definition ecma_is_value_boolean :: "ecma_value_t \<Rightarrow> bool" where
  "ecma_is_value_boolean v =
     (v = Simple_value ECMA_SIMPLE_VALUE_FALSE \<or> v = Simple_value ECMA_SIMPLE_VALUE_TRUE)"

text \<open>
  Modelled from the spec: the completion value, the tagged result
  \<^verbatim>\<open>{Normal(Value), Throw(Value), Return(Value), Exit(bool)}\<close>, and its constructors
  and tests, which are not part of the source.
\<close>

datatype ecma_completion_value_t =
    Normal ecma_value_t
  | Throw ecma_value_t
  | Return ecma_value_t
  | Exit bool

definition ecma_make_normal_completion_value :: "ecma_value_t \<Rightarrow> ecma_completion_value_t" where
  "ecma_make_normal_completion_value v = Normal v"

definition ecma_new_standard_error :: "ecma_standard_error_t \<Rightarrow> ecma_object_ptr" where
  "ecma_new_standard_error e = Standard_error_object e"

definition ecma_make_throw_obj_completion_value :: "ecma_object_ptr \<Rightarrow> ecma_completion_value_t" where
  "ecma_make_throw_obj_completion_value p = Throw (Object_value p)"

definition ecma_is_completion_value_throw :: "ecma_completion_value_t \<Rightarrow> bool" where
  "ecma_is_completion_value_throw c = (case c of Throw _ \<Rightarrow> True | _ \<Rightarrow> False)"

definition ecma_is_completion_value_normal_true :: "ecma_completion_value_t \<Rightarrow> bool" where
  "ecma_is_completion_value_normal_true c = (c = Normal (Simple_value ECMA_SIMPLE_VALUE_TRUE))"

definition ecma_is_completion_value_normal_false :: "ecma_completion_value_t \<Rightarrow> bool" where
  "ecma_is_completion_value_normal_false c = (c = Normal (Simple_value ECMA_SIMPLE_VALUE_FALSE))"

definition ecma_copy_completion_value :: "ecma_completion_value_t \<Rightarrow> ecma_completion_value_t" where
  "ecma_copy_completion_value c = c"

text \<open>
  Modelled from the spec: the macro pair \<^verbatim>\<open>ECMA_TRY_CATCH (var, op, ret_value)\<close> ...
  \<^verbatim>\<open>ECMA_FINALIZE (var)\<close> of \<^verbatim>\<open>ecma-try-catch-macro.h\<close>, the short-circuit combinator
  of the spec: a sub-step that yields \<^verbatim>\<open>Throw\<close> ends the routine with that
  \<^verbatim>\<open>Throw\<close>; otherwise the body runs with the sub-step's completion value in
  \<^verbatim>\<open>var\<close>. A fault of the sub-step is a fault of the routine.
\<close>

definition ECMA_TRY_CATCH ::
  "jerry_fault + ecma_completion_value_t
   \<Rightarrow> (ecma_completion_value_t \<Rightarrow> jerry_fault + ecma_completion_value_t)
   \<Rightarrow> jerry_fault + ecma_completion_value_t" where
  "ECMA_TRY_CATCH op body =
     (case op of
        Inl fault \<Rightarrow> Inl fault
      | Inr var \<Rightarrow>
          if ecma_is_completion_value_throw var then Inr (ecma_copy_completion_value var)
          else body var)"

subsection \<open>Properties and objects\<close>

text \<open>
  Modelled from the spec: the object model is not part of the source. A named data
  property is its name, its value and its three attributes. An object is the internal
  properties the file reads and writes, and its named properties. The field of an
  internal property is what \<^verbatim>\<open>ecma_get_internal_property (obj_p, id)\<close> points to:

  \<^item> \<open>built_in_id\<close>: the identifier of a built-in object, \<open>None\<close> for other objects;
  \<^item> \<open>internal_class\<close>: \<^verbatim>\<open>ECMA_INTERNAL_PROPERTY_CLASS\<close>, a magic string identifier;
  \<^item> \<open>internal_primitive_boolean_value\<close>:
    \<^verbatim>\<open>ECMA_INTERNAL_PROPERTY_PRIMITIVE_BOOLEAN_VALUE\<close>, a 32-bit field: the simple value
    it encodes, or \<open>None\<close> when it is not below \<^verbatim>\<open>ECMA_SIMPLE_VALUE__COUNT\<close>;
  \<^item> \<open>internal_mask_0_31\<close> and \<open>internal_mask_32_63\<close>: the two halves of the mask
    of the built-in properties that are not instantiated yet.
\<close>

datatype ecma_property_writable_value_t = ECMA_PROPERTY_NOT_WRITABLE | ECMA_PROPERTY_WRITABLE

datatype ecma_property_enumerable_value_t = ECMA_PROPERTY_NOT_ENUMERABLE | ECMA_PROPERTY_ENUMERABLE

datatype ecma_property_configurable_value_t =
  ECMA_PROPERTY_NOT_CONFIGURABLE | ECMA_PROPERTY_CONFIGURABLE

record ecma_property_t =
  prop_name :: ecma_string_t
  prop_value :: ecma_value_t
  prop_writable :: ecma_property_writable_value_t
  prop_enumerable :: ecma_property_enumerable_value_t
  prop_configurable :: ecma_property_configurable_value_t

record ecma_object_t =
  built_in_id :: "ecma_builtin_id_t option"
  internal_class :: ecma_magic_string_id_t
  internal_primitive_boolean_value :: "ecma_simple_value_t option"
  internal_mask_0_31 :: "32 word"
  internal_mask_32_63 :: "32 word"
  named_properties :: "ecma_property_t list"

text \<open>
  Modelled from the spec: the heap, which gives the object behind an object reference,
  as \<^verbatim>\<open>ECMA_GET_POINTER\<close> does for the \<^verbatim>\<open>value\<close> of an object value.
\<close>

type_synonym ecma_heap = "ecma_object_ptr \<Rightarrow> ecma_object_t"

subsection \<open>The routines valueOf and toString\<close>

text \<open>
  \<^verbatim>\<open>ecma_builtin_boolean_prototype_object_value_of\<close> (ECMA-262 v5, 15.6.4.3), with its
  two assertions on the primitive value of a Boolean object. The case \<open>Object_value obj_p\<close>
  is the test \<^verbatim>\<open>this.value_type == ECMA_TYPE_OBJECT\<close>, with
  \<^verbatim>\<open>obj_p = ECMA_GET_POINTER (this.value)\<close>; every other case is the fall through to
  the last \<^verbatim>\<open>return\<close>.
\<close>

definition ecma_builtin_boolean_prototype_object_value_of ::
  "ecma_heap \<Rightarrow> ecma_value_t \<Rightarrow> jerry_fault + ecma_completion_value_t" where
  "ecma_builtin_boolean_prototype_object_value_of heap this =
     (if ecma_is_value_boolean this then Inr (ecma_make_normal_completion_value this)
      else
        (case this of
           Object_value obj_p \<Rightarrow>
             if internal_class (heap obj_p) = ECMA_MAGIC_STRING_BOOLEAN_UL then
               (case internal_primitive_boolean_value (heap obj_p) of
                  None \<Rightarrow> Inl (Assertion_failed 152)
                | Some prim_simple_value \<Rightarrow>
                    (let ret_boolean_value = ecma_make_simple_value prim_simple_value
                     in if ecma_is_value_boolean ret_boolean_value
                        then Inr (ecma_make_normal_completion_value ret_boolean_value)
                        else Inl (Assertion_failed 158)))
             else Inr (ecma_make_throw_obj_completion_value
                         (ecma_new_standard_error ECMA_ERROR_TYPE))
         | _ \<Rightarrow> Inr (ecma_make_throw_obj_completion_value
                      (ecma_new_standard_error ECMA_ERROR_TYPE))))"

text \<open>
  \<^verbatim>\<open>ecma_builtin_boolean_prototype_object_to_string\<close> (ECMA-262 v5, 15.6.4.2). The
  release of \<^verbatim>\<open>completion_value_of\<close> in \<^verbatim>\<open>ECMA_FINALIZE\<close> does not change the
  completion value that is returned.
\<close>

definition ecma_builtin_boolean_prototype_object_to_string ::
  "ecma_heap \<Rightarrow> ecma_value_t \<Rightarrow> jerry_fault + ecma_completion_value_t" where
  "ecma_builtin_boolean_prototype_object_to_string heap this =
     ECMA_TRY_CATCH (ecma_builtin_boolean_prototype_object_value_of heap this)
       (\<lambda>completion_value_of.
          if ecma_is_completion_value_normal_true completion_value_of then
            Inr (ecma_make_normal_completion_value
                   (ecma_make_string_value (ecma_get_magic_string ECMA_MAGIC_STRING_TRUE)))
          else if ecma_is_completion_value_normal_false completion_value_of then
            Inr (ecma_make_normal_completion_value
                   (ecma_make_string_value (ecma_get_magic_string ECMA_MAGIC_STRING_FALSE)))
          else Inl (Assertion_failed 113))"

subsection \<open>The lists of the built-in properties\<close>

text \<open>
  The two lists of the file are macros that take a macro and apply it to each entry;
  here they are lists, and each use of a list with a macro is a function over the list.
  An entry of the list of routines is \<^verbatim>\<open>(name, C function name, arguments number of
  the routine, length value of the routine)\<close>; the C function takes \<^verbatim>\<open>this\<close> and as
  many arguments as the entry says. An entry of the list of object values is
  \<^verbatim>\<open>(name, value)\<close>.
\<close>

text \<open>
  Modelled from the spec: \<^verbatim>\<open>ecma_builtin_get\<close> is not part of the source; a value
  entry resolves to a constant reference, the built-in object of that identifier.
\<close>

definition ecma_builtin_get :: "ecma_builtin_id_t \<Rightarrow> ecma_object_ptr" where
  "ecma_builtin_get builtin_id = Builtin_object builtin_id"

record routine_property =
  routine_name :: ecma_magic_string_id_t
  routine_c_function ::
    "ecma_heap \<Rightarrow> ecma_value_t \<Rightarrow> ecma_value_t list \<Rightarrow> jerry_fault + ecma_completion_value_t"
  routine_args_number :: nat
  routine_length :: nat

definition ECMA_BUILTIN_BOOLEAN_PROTOTYPE_OBJECT_OBJECT_VALUES_PROPERTY_LIST ::
  "(ecma_magic_string_id_t \<times> ecma_object_ptr) list" where
  "ECMA_BUILTIN_BOOLEAN_PROTOTYPE_OBJECT_OBJECT_VALUES_PROPERTY_LIST =
     [(ECMA_MAGIC_STRING_CONSTRUCTOR, ecma_builtin_get ECMA_BUILTIN_ID_BOOLEAN)]"

definition ECMA_BUILTIN_BOOLEAN_PROTOTYPE_OBJECT_ROUTINES_PROPERTY_LIST ::
  "routine_property list" where
  "ECMA_BUILTIN_BOOLEAN_PROTOTYPE_OBJECT_ROUTINES_PROPERTY_LIST =
     [\<lparr> routine_name = ECMA_MAGIC_STRING_TO_STRING_UL,
        routine_c_function =
          (\<lambda>heap this args. ecma_builtin_boolean_prototype_object_to_string heap this),
        routine_args_number = 0,
        routine_length = 0 \<rparr>,
      \<lparr> routine_name = ECMA_MAGIC_STRING_VALUE_OF_UL,
        routine_c_function =
          (\<lambda>heap this args. ecma_builtin_boolean_prototype_object_value_of heap this),
        routine_args_number = 0,
        routine_length = 0 \<rparr>]"

text \<open>
  \<^verbatim>\<open>ecma_builtin_property_names\<close>: the names of the object values, then the names of
  the routines; and the number of its elements.
\<close>

definition ecma_builtin_property_names :: "ecma_magic_string_id_t list" where
  "ecma_builtin_property_names =
     map fst ECMA_BUILTIN_BOOLEAN_PROTOTYPE_OBJECT_OBJECT_VALUES_PROPERTY_LIST
     @ map routine_name ECMA_BUILTIN_BOOLEAN_PROTOTYPE_OBJECT_ROUTINES_PROPERTY_LIST"

definition ecma_builtin_boolean_prototype_property_number :: nat where
  "ecma_builtin_boolean_prototype_property_number = length ecma_builtin_property_names"

subsection \<open>The search for a name in the array of names\<close>

text \<open>
  Modelled from the spec: \<^verbatim>\<open>ecma_builtin_bin_search_for_magic_string_id_in_array\<close> is
  not part of the source. The spec has \<^verbatim>\<open>lookup(sortedNames, id) -> index | NotFound\<close>,
  a binary search; the file reads the result as an \<^verbatim>\<open>int32_t\<close> that is \<^verbatim>\<open>-1\<close> when
  the name is not found. The search compares the key with the middle element of the
  range \<open>lo .. hi\<close> and goes on in the lower or in the upper half, by the numeric values
  \<open>num\<close> of the two identifiers.
\<close>

function bin_search_loop ::
  "(ecma_magic_string_id_t \<Rightarrow> nat) \<Rightarrow> ecma_magic_string_id_t list \<Rightarrow> int \<Rightarrow> int
   \<Rightarrow> ecma_magic_string_id_t \<Rightarrow> int" where
  "bin_search_loop num ids lo hi key =
     (if hi < lo then - 1
      else
        (let mid = (lo + hi) div 2
         in if ids ! nat mid = key then mid
            else if num key < num (ids ! nat mid) then bin_search_loop num ids lo (mid - 1) key
            else bin_search_loop num ids (mid + 1) hi key))"
  by pat_completeness auto
termination
  by (relation "measure (\<lambda>(num, ids, lo, hi, key). nat (hi - lo + 1))") auto

definition ecma_builtin_bin_search_for_magic_string_id_in_array ::
  "(ecma_magic_string_id_t \<Rightarrow> nat) \<Rightarrow> ecma_magic_string_id_t list \<Rightarrow> nat
   \<Rightarrow> ecma_magic_string_id_t \<Rightarrow> int" where
  "ecma_builtin_bin_search_for_magic_string_id_in_array num ids array_length key =
     bin_search_loop num ids 0 (int array_length - 1) key"

subsection \<open>The lazy instantiation of a built-in property\<close>

text \<open>
  Modelled from the spec: the helpers of the object model and of the collector that
  \<^verbatim>\<open>try_to_instantiate_property\<close> calls are not part of the source.

  \<^item> \<^verbatim>\<open>ecma_builtin_is\<close>: the object is the built-in object of that identifier.
  \<^item> \<^verbatim>\<open>ecma_find_named_property\<close>, the spec's \<^verbatim>\<open>find_property\<close>: the object's
    property of that name, if it has one.
  \<^item> \<^verbatim>\<open>ecma_create_named_data_property\<close>, the spec's \<^verbatim>\<open>create_data_property\<close>:
    a new property of the object with that name and those attributes; its value is
    undefined until one is stored.
  \<^item> \<^verbatim>\<open>ecma_builtin_make_function_object_for_routine\<close>: a routine entry binds a
    callable to the built-in's identifier and the routine's name.
  \<^item> The two mask slots, selected by the identifier of the internal property.
  \<^item> The collector's interface (\<^verbatim>\<open>retain\<close>, \<^verbatim>\<open>flag_may_reference_younger\<close>,
    \<^verbatim>\<open>release\<close> in the spec): \<^verbatim>\<open>ecma_copy_value\<close> returns the value it is given;
    the calls of \<^verbatim>\<open>ecma_copy_value\<close>,
    \<^verbatim>\<open>ecma_gc_update_may_ref_younger_object_flag_by_value\<close> and \<^verbatim>\<open>ecma_free_value\<close>
    are kept, in the order in which they are made, in a list of calls.
\<close>

definition ecma_builtin_is :: "ecma_object_t \<Rightarrow> ecma_builtin_id_t \<Rightarrow> bool" where
  "ecma_builtin_is obj builtin_id = (built_in_id obj = Some builtin_id)"

definition ecma_find_named_property :: "ecma_object_t \<Rightarrow> ecma_string_t \<Rightarrow> ecma_property_t option" where
  "ecma_find_named_property obj name = find (\<lambda>p. prop_name p = name) (named_properties obj)"

definition ecma_create_named_data_property ::
  "ecma_string_t \<Rightarrow> ecma_property_writable_value_t \<Rightarrow> ecma_property_enumerable_value_t
   \<Rightarrow> ecma_property_configurable_value_t \<Rightarrow> ecma_property_t" where
  "ecma_create_named_data_property name writable enumerable configurable =
     \<lparr> prop_name = name, prop_value = Simple_value ECMA_SIMPLE_VALUE_UNDEFINED,
       prop_writable = writable, prop_enumerable = enumerable,
       prop_configurable = configurable \<rparr>"

definition ecma_builtin_make_function_object_for_routine ::
  "ecma_builtin_id_t \<Rightarrow> ecma_magic_string_id_t \<Rightarrow> ecma_object_ptr" where
  "ecma_builtin_make_function_object_for_routine builtin_id routine_id =
     Routine_function_object builtin_id routine_id"

datatype ecma_internal_property_id_t =
    ECMA_INTERNAL_PROPERTY_NON_INSTANTIATED_BUILT_IN_MASK_0_31
  | ECMA_INTERNAL_PROPERTY_NON_INSTANTIATED_BUILT_IN_MASK_32_63

fun get_internal_mask :: "ecma_object_t \<Rightarrow> ecma_internal_property_id_t \<Rightarrow> 32 word" where
  "get_internal_mask obj ECMA_INTERNAL_PROPERTY_NON_INSTANTIATED_BUILT_IN_MASK_0_31 =
     internal_mask_0_31 obj"
| "get_internal_mask obj ECMA_INTERNAL_PROPERTY_NON_INSTANTIATED_BUILT_IN_MASK_32_63 =
     internal_mask_32_63 obj"

fun set_internal_mask ::
  "ecma_object_t \<Rightarrow> ecma_internal_property_id_t \<Rightarrow> 32 word \<Rightarrow> ecma_object_t" where
  "set_internal_mask obj ECMA_INTERNAL_PROPERTY_NON_INSTANTIATED_BUILT_IN_MASK_0_31 w =
     obj\<lparr>internal_mask_0_31 := w\<rparr>"
| "set_internal_mask obj ECMA_INTERNAL_PROPERTY_NON_INSTANTIATED_BUILT_IN_MASK_32_63 w =
     obj\<lparr>internal_mask_32_63 := w\<rparr>"

datatype ecma_gc_call =
    Ecma_copy_value ecma_value_t bool
  | Ecma_gc_update_may_ref_younger_object_flag_by_value ecma_value_t
  | Ecma_free_value ecma_value_t bool

definition ecma_copy_value :: "ecma_value_t \<Rightarrow> bool \<Rightarrow> ecma_value_t" where
  "ecma_copy_value v deep = v"

text \<open>
  The \<^verbatim>\<open>switch (id)\<close> of lines 231 to 270: the value and the attributes of the
  property to create. The labels of the first case are the names of the routines, the
  labels of the second case the names of the object values; the inner \<^verbatim>\<open>switch\<close> takes
  the value of the entry of that name.
\<close>

definition instantiated_value_and_attributes ::
  "ecma_magic_string_id_t
   \<Rightarrow> jerry_fault + (ecma_value_t \<times> ecma_property_writable_value_t
        \<times> ecma_property_enumerable_value_t \<times> ecma_property_configurable_value_t)" where
  "instantiated_value_and_attributes string_id =
     (if string_id \<in> set (map routine_name ECMA_BUILTIN_BOOLEAN_PROTOTYPE_OBJECT_ROUTINES_PROPERTY_LIST)
      then
        (let func_obj_p = ecma_builtin_make_function_object_for_routine
                            ECMA_BUILTIN_ID_BOOLEAN_PROTOTYPE string_id
         in Inr (ecma_make_object_value func_obj_p,
                 ECMA_PROPERTY_WRITABLE, ECMA_PROPERTY_NOT_ENUMERABLE, ECMA_PROPERTY_CONFIGURABLE))
      else if string_id \<in> set (map fst ECMA_BUILTIN_BOOLEAN_PROTOTYPE_OBJECT_OBJECT_VALUES_PROPERTY_LIST)
      then
        (case map_of ECMA_BUILTIN_BOOLEAN_PROTOTYPE_OBJECT_OBJECT_VALUES_PROPERTY_LIST string_id of
           Some value_obj \<Rightarrow>
             Inr (ecma_make_object_value value_obj,
                  ECMA_PROPERTY_NOT_WRITABLE, ECMA_PROPERTY_NOT_ENUMERABLE,
                  ECMA_PROPERTY_NOT_CONFIGURABLE)
         | None \<Rightarrow> Inl (Unreachable 259))
      else Inl (Unreachable 268))"

text \<open>
  \<^verbatim>\<open>ecma_builtin_boolean_prototype_try_to_instantiate_property\<close>. The object behind
  \<^verbatim>\<open>obj_p\<close> is passed in and returned; so is the list of the calls to the collector.
  The result is the new property, or \<open>None\<close> for \<^verbatim>\<open>NULL\<close>. The new property belongs
  to the object from line 272 on; the object that is returned holds it with the value
  that line 278 stores.
\<close>

definition ecma_builtin_boolean_prototype_try_to_instantiate_property ::
  "(ecma_magic_string_id_t \<Rightarrow> nat) \<Rightarrow> ecma_object_t \<Rightarrow> ecma_string_t \<Rightarrow> ecma_gc_call list
   \<Rightarrow> jerry_fault + (ecma_property_t option \<times> ecma_object_t \<times> ecma_gc_call list)" where
  "ecma_builtin_boolean_prototype_try_to_instantiate_property num obj prop_name_p gc =
     (if \<not> ecma_builtin_is obj ECMA_BUILTIN_ID_BOOLEAN_PROTOTYPE then Inl (Assertion_failed 179)
      else if ecma_find_named_property obj prop_name_p \<noteq> None then Inl (Assertion_failed 180)
      else
        (case ecma_is_string_magic prop_name_p of
           None \<Rightarrow> Inr (None, obj, gc)
         | Some string_id \<Rightarrow>
             (let index = ecma_builtin_bin_search_for_magic_string_id_in_array num
                            ecma_builtin_property_names
                            ecma_builtin_boolean_prototype_property_number string_id
              in if index = - 1 then Inr (None, obj, gc)
                 else if \<not> (0 \<le> index \<and> index < 64) then Inl (Assertion_failed 198)
                 else
                   (let mask_prop_id =
                          (if 32 \<le> index
                           then ECMA_INTERNAL_PROPERTY_NON_INSTANTIATED_BUILT_IN_MASK_32_63
                           else ECMA_INTERNAL_PROPERTY_NON_INSTANTIATED_BUILT_IN_MASK_0_31);
                        bit = (if 32 \<le> index then push_bit (nat (index - 32)) (1 :: 32 word)
                               else push_bit (nat index) (1 :: 32 word));
                        bit_mask = get_internal_mask obj mask_prop_id
                    in if bit_mask AND bit = 0 then Inr (None, obj, gc)
                       else
                         (let obj1 = set_internal_mask obj mask_prop_id (bit_mask AND NOT bit)
                          in case instantiated_value_and_attributes string_id of
                               Inl fault \<Rightarrow> Inl fault
                             | Inr (val, writable, enumerable, configurable) \<Rightarrow>
                                 (let prop = ecma_create_named_data_property prop_name_p
                                               writable enumerable configurable;
                                      prop1 = prop\<lparr>prop_value := ecma_copy_value val False\<rparr>;
                                      obj2 = obj1\<lparr>named_properties :=
                                                    prop1 # named_properties obj1\<rparr>;
                                      gc1 = gc @
                                        [Ecma_copy_value val False,
                                         Ecma_gc_update_may_ref_younger_object_flag_by_value
                                           (prop_value prop1),
                                         Ecma_free_value val True]
                                  in Inr (Some prop1, obj2, gc1)))))))"

text \<open>
  What can happen to a built-in object in the course of time. The two mask slots are
  written in one place of the source, line 224 of \<^verbatim>\<open>try_to_instantiate_property\<close>.
  So a step is a run of that function on the object, or anything else that is done to the
  object (by the object model: a property is deleted or added, another internal property
  is written), which leaves the two mask slots as they are.
\<close>

inductive object_evolves ::
  "(ecma_magic_string_id_t \<Rightarrow> nat) \<Rightarrow> ecma_object_t \<Rightarrow> ecma_object_t \<Rightarrow> bool"
  for num :: "ecma_magic_string_id_t \<Rightarrow> nat" where
  evolves_refl: "object_evolves num obj obj"
| evolves_instantiate:
    "object_evolves num obj obj1 \<Longrightarrow>
     ecma_builtin_boolean_prototype_try_to_instantiate_property num obj1 name gc
       = Inr (r, obj2, gc') \<Longrightarrow>
     object_evolves num obj obj2"
| evolves_other:
    "object_evolves num obj obj1 \<Longrightarrow>
     internal_mask_0_31 obj2 = internal_mask_0_31 obj1 \<Longrightarrow>
     internal_mask_32_63 obj2 = internal_mask_32_63 obj1 \<Longrightarrow>
     object_evolves num obj obj2"

subsection \<open>The dispatcher of the routines and the length of a routine\<close>

text \<open>
  The macro \<^verbatim>\<open>ROUTINE_ARG(n)\<close> of the dispatcher, and the list of arguments
  \<^verbatim>\<open>ROUTINE_ARG_LIST_k\<close> that a routine with \<open>k\<close> arguments is called with.
  \<^verbatim>\<open>arguments_number\<close> is the length of \<^verbatim>\<open>arguments_list\<close>. (No routine of this
  built-in takes a variable number of arguments, \<^verbatim>\<open>ROUTINE_ARG_LIST_NON_FIXED\<close>.)
\<close>

definition ROUTINE_ARG :: "ecma_value_t list \<Rightarrow> nat \<Rightarrow> nat \<Rightarrow> ecma_value_t" where
  "ROUTINE_ARG arguments_list arguments_number n =
     (if n \<le> arguments_number then arguments_list ! (n - 1) else value_undefined)"

definition ROUTINE_ARG_LIST :: "ecma_value_t list \<Rightarrow> nat \<Rightarrow> nat \<Rightarrow> ecma_value_t list" where
  "ROUTINE_ARG_LIST arguments_list arguments_number k =
     map (ROUTINE_ARG arguments_list arguments_number) [1 ..< Suc k]"

definition ecma_builtin_boolean_prototype_dispatch_routine ::
  "ecma_heap \<Rightarrow> ecma_magic_string_id_t \<Rightarrow> ecma_value_t \<Rightarrow> ecma_value_t list \<Rightarrow> nat
   \<Rightarrow> jerry_fault + ecma_completion_value_t" where
  "ecma_builtin_boolean_prototype_dispatch_routine heap builtin_routine_id this_arg_value
       arguments_list arguments_number =
     (case find (\<lambda>r. routine_name r = builtin_routine_id)
             ECMA_BUILTIN_BOOLEAN_PROTOTYPE_OBJECT_ROUTINES_PROPERTY_LIST of
        Some r \<Rightarrow>
          routine_c_function r heap this_arg_value
            (ROUTINE_ARG_LIST arguments_list arguments_number (routine_args_number r))
      | None \<Rightarrow> Inl (Unreachable 326))"

definition ecma_builtin_boolean_prototype_get_routine_parameters_number ::
  "ecma_magic_string_id_t \<Rightarrow> jerry_fault + nat" where
  "ecma_builtin_boolean_prototype_get_routine_parameters_number builtin_routine_id =
     (case find (\<lambda>r. routine_name r = builtin_routine_id)
             ECMA_BUILTIN_BOOLEAN_PROTOTYPE_OBJECT_ROUTINES_PROPERTY_LIST of
        Some r \<Rightarrow> Inr (routine_length r)
      | None \<Rightarrow> Inl (Unreachable 349))"

subsection \<open>Objects and values of the examples\<close>

text \<open>
  A Boolean object (class "Boolean") that wraps \<open>sv\<close>, a plain object (of another class),
  and a heap with a Boolean object for \<^verbatim>\<open>true\<close> at address 1 and plain objects
  elsewhere. The number 42 is the double \<^verbatim>\<open>0x4045000000000000\<close>.
\<close>

definition boolean_object :: "ecma_simple_value_t \<Rightarrow> ecma_object_t" where
  "boolean_object sv =
     \<lparr> built_in_id = None, internal_class = ECMA_MAGIC_STRING_BOOLEAN_UL,
       internal_primitive_boolean_value = Some sv,
       internal_mask_0_31 = 0, internal_mask_32_63 = 0, named_properties = [] \<rparr>"

definition plain_object :: ecma_object_t where
  "plain_object =
     \<lparr> built_in_id = None, internal_class = ECMA_MAGIC_STRING_OTHER 0,
       internal_primitive_boolean_value = None,
       internal_mask_0_31 = 0, internal_mask_32_63 = 0, named_properties = [] \<rparr>"

definition example_heap :: ecma_heap where
  "example_heap p =
     (if p = Heap_object 1 then boolean_object ECMA_SIMPLE_VALUE_TRUE else plain_object)"

definition number_42 :: ecma_value_t where
  "number_42 = Number_value 0x4045000000000000"

text \<open>
  A numbering of the magic string identifiers under which the array of names is sorted,
  and a Boolean.prototype object none of whose built-in properties is instantiated: the
  bits 0, 1 and 2 of the mask are set.
\<close>

fun example_numbering :: "ecma_magic_string_id_t \<Rightarrow> nat" where
  "example_numbering ECMA_MAGIC_STRING_CONSTRUCTOR = 0"
| "example_numbering ECMA_MAGIC_STRING_TO_STRING_UL = 1"
| "example_numbering ECMA_MAGIC_STRING_VALUE_OF_UL = 2"
| "example_numbering ECMA_MAGIC_STRING_BOOLEAN_UL = 3"
| "example_numbering ECMA_MAGIC_STRING_TRUE = 4"
| "example_numbering ECMA_MAGIC_STRING_FALSE = 5"
| "example_numbering (ECMA_MAGIC_STRING_OTHER n) = 6 + n"

definition boolean_prototype_object :: ecma_object_t where
  "boolean_prototype_object =
     \<lparr> built_in_id = Some ECMA_BUILTIN_ID_BOOLEAN_PROTOTYPE,
       internal_class = ECMA_MAGIC_STRING_BOOLEAN_UL,
       internal_primitive_boolean_value = Some ECMA_SIMPLE_VALUE_FALSE,
       internal_mask_0_31 = 7, internal_mask_32_63 = 0, named_properties = [] \<rparr>"

definition to_string_function :: ecma_value_t where
  "to_string_function =
     Object_value (Routine_function_object ECMA_BUILTIN_ID_BOOLEAN_PROTOTYPE
                     ECMA_MAGIC_STRING_TO_STRING_UL)"

definition to_string_property :: ecma_property_t where
  "to_string_property =
     \<lparr> prop_name = Magic_string ECMA_MAGIC_STRING_TO_STRING_UL,
       prop_value = to_string_function,
       prop_writable = ECMA_PROPERTY_WRITABLE,
       prop_enumerable = ECMA_PROPERTY_NOT_ENUMERABLE,
       prop_configurable = ECMA_PROPERTY_CONFIGURABLE \<rparr>"

definition boolean_constructor :: ecma_value_t where
  "boolean_constructor = Object_value (Builtin_object ECMA_BUILTIN_ID_BOOLEAN)"

definition constructor_property :: ecma_property_t where
  "constructor_property =
     \<lparr> prop_name = Magic_string ECMA_MAGIC_STRING_CONSTRUCTOR,
       prop_value = boolean_constructor,
       prop_writable = ECMA_PROPERTY_NOT_WRITABLE,
       prop_enumerable = ECMA_PROPERTY_NOT_ENUMERABLE,
       prop_configurable = ECMA_PROPERTY_NOT_CONFIGURABLE \<rparr>"

definition type_error_completion :: ecma_completion_value_t where
  "type_error_completion = Throw (Object_value (Standard_error_object ECMA_ERROR_TYPE))"

section \<open>Properties of valueOf and toString\<close>

lemmas value_constructors =
  ecma_make_simple_value_def ecma_make_string_value_def ecma_make_object_value_def
  ecma_make_normal_completion_value_def ecma_make_throw_obj_completion_value_def
  ecma_new_standard_error_def ecma_get_magic_string_def ecma_copy_completion_value_def

lemmas completion_tests =
  ecma_is_completion_value_throw_def ecma_is_completion_value_normal_true_def
  ecma_is_completion_value_normal_false_def

lemma value_of_boolean:
  "ecma_is_value_boolean v \<Longrightarrow>
   ecma_builtin_boolean_prototype_object_value_of heap v = Inr (Normal v)"
  by (simp add: ecma_builtin_boolean_prototype_object_value_of_def value_constructors)

lemma value_of_boolean_object:
  assumes "internal_class (heap p) = ECMA_MAGIC_STRING_BOOLEAN_UL"
    and "internal_primitive_boolean_value (heap p) = Some sv"
    and "ecma_is_value_boolean (Simple_value sv)"
  shows "ecma_builtin_boolean_prototype_object_value_of heap (Object_value p)
         = Inr (Normal (Simple_value sv))"
  using assms
  by (simp add: ecma_builtin_boolean_prototype_object_value_of_def value_constructors
      ecma_is_value_boolean_def)

lemma value_of_other_object:
  assumes "internal_class (heap p) \<noteq> ECMA_MAGIC_STRING_BOOLEAN_UL"
  shows "ecma_builtin_boolean_prototype_object_value_of heap (Object_value p)
         = Inr type_error_completion"
  using assms
  by (simp add: ecma_builtin_boolean_prototype_object_value_of_def value_constructors
      ecma_is_value_boolean_def type_error_completion_def)

lemma value_of_not_object:
  assumes "\<not> ecma_is_value_boolean v" and "value_type v \<noteq> ECMA_TYPE_OBJECT"
  shows "ecma_builtin_boolean_prototype_object_value_of heap v = Inr type_error_completion"
  using assms
  by (cases v)
    (simp_all add: ecma_builtin_boolean_prototype_object_value_of_def value_constructors
      type_error_completion_def)

lemma value_of_results:
  "ecma_builtin_boolean_prototype_object_value_of heap v = Inr c \<Longrightarrow>
   c = Normal (Simple_value ECMA_SIMPLE_VALUE_TRUE)
   \<or> c = Normal (Simple_value ECMA_SIMPLE_VALUE_FALSE)
   \<or> c = type_error_completion"
  by (auto simp: ecma_builtin_boolean_prototype_object_value_of_def value_constructors
      ecma_is_value_boolean_def type_error_completion_def
      split: if_splits ecma_value_t.splits option.splits)

lemma value_of_faults:
  "ecma_builtin_boolean_prototype_object_value_of heap v = Inl fault \<Longrightarrow>
   fault = Assertion_failed 152 \<or> fault = Assertion_failed 158"
  by (auto simp: ecma_builtin_boolean_prototype_object_value_of_def value_constructors Let_def
      split: if_splits ecma_value_t.splits option.splits)

lemma to_string_of_throw:
  "ecma_builtin_boolean_prototype_object_value_of heap v = Inr (Throw e) \<Longrightarrow>
   ecma_builtin_boolean_prototype_object_to_string heap v = Inr (Throw e)"
  by (simp add: ecma_builtin_boolean_prototype_object_to_string_def ECMA_TRY_CATCH_def
      completion_tests value_constructors)

lemma to_string_of_true:
  "ecma_builtin_boolean_prototype_object_value_of heap v
     = Inr (Normal (Simple_value ECMA_SIMPLE_VALUE_TRUE)) \<Longrightarrow>
   ecma_builtin_boolean_prototype_object_to_string heap v
     = Inr (Normal (String_value (Magic_string ECMA_MAGIC_STRING_TRUE)))"
  by (simp add: ecma_builtin_boolean_prototype_object_to_string_def ECMA_TRY_CATCH_def
      completion_tests value_constructors)

lemma to_string_of_false:
  "ecma_builtin_boolean_prototype_object_value_of heap v
     = Inr (Normal (Simple_value ECMA_SIMPLE_VALUE_FALSE)) \<Longrightarrow>
   ecma_builtin_boolean_prototype_object_to_string heap v
     = Inr (Normal (String_value (Magic_string ECMA_MAGIC_STRING_FALSE)))"
  by (simp add: ecma_builtin_boolean_prototype_object_to_string_def ECMA_TRY_CATCH_def
      completion_tests value_constructors)

lemma to_string_of_fault:
  "ecma_builtin_boolean_prototype_object_value_of heap v = Inl fault \<Longrightarrow>
   ecma_builtin_boolean_prototype_object_to_string heap v = Inl fault"
  by (simp add: ecma_builtin_boolean_prototype_object_to_string_def ECMA_TRY_CATCH_def)

lemma example_value_of_true_object:
  "ecma_builtin_boolean_prototype_object_value_of example_heap (Object_value (Heap_object 1))
   = Inr (Normal (Simple_value ECMA_SIMPLE_VALUE_TRUE))"
  by (simp add: ecma_builtin_boolean_prototype_object_value_of_def value_constructors
      ecma_is_value_boolean_def example_heap_def boolean_object_def)

lemma example_value_of_42:
  "ecma_builtin_boolean_prototype_object_value_of example_heap number_42
   = Inr type_error_completion"
  by (simp add: ecma_builtin_boolean_prototype_object_value_of_def value_constructors
      ecma_is_value_boolean_def number_42_def type_error_completion_def)

section \<open>Properties of the search and of the lazy instantiation\<close>

lemma and_push_bit_eq_0_iff:
  fixes w :: "32 word"
  assumes "i < 32"
  shows "(w AND push_bit i 1 = 0) = (\<not> bit w i)"
proof
  assume "w AND push_bit i 1 = 0"
  then have "\<not> bit (w AND push_bit i 1) i" by simp
  with assms show "\<not> bit w i" by (simp add: bit_and_iff bit_exp_iff)
next
  assume "\<not> bit w i"
  then show "w AND push_bit i 1 = 0"
    by (intro bit_eqI) (auto simp: bit_and_iff bit_exp_iff)
qed

lemma bit_and_not_push_bit:
  "bit ((w :: 32 word) AND NOT (push_bit i 1)) j = (bit w j \<and> j \<noteq> i)"
  by (auto simp: bit_and_iff bit_not_iff bit_exp_iff dest: bit_imp_le_length)

lemma property_names_eq:
  "ecma_builtin_property_names =
     [ECMA_MAGIC_STRING_CONSTRUCTOR, ECMA_MAGIC_STRING_TO_STRING_UL, ECMA_MAGIC_STRING_VALUE_OF_UL]"
  by (simp add: ecma_builtin_property_names_def
      ECMA_BUILTIN_BOOLEAN_PROTOTYPE_OBJECT_OBJECT_VALUES_PROPERTY_LIST_def
      ECMA_BUILTIN_BOOLEAN_PROTOTYPE_OBJECT_ROUTINES_PROPERTY_LIST_def)

lemma bin_search_loop_found:
  "bin_search_loop num ids lo hi key = r \<Longrightarrow> r \<noteq> - 1 \<Longrightarrow> 0 \<le> lo \<Longrightarrow>
   lo \<le> r \<and> r \<le> hi \<and> ids ! nat r = key"
proof (induction num ids lo hi key rule: bin_search_loop.induct)
  case (1 num ids lo hi key)
  show ?case
  proof (cases "hi < lo")
    case True
    with "1.prems" show ?thesis by (simp add: bin_search_loop.simps[of num ids lo hi key])
  next
    case False
    define mid where "mid = (lo + hi) div 2"
    have mid: "lo \<le> mid" "mid \<le> hi" using False by (auto simp: mid_def)
    show ?thesis
    proof (cases "ids ! nat mid = key")
      case True
      with False "1.prems" mid show ?thesis
        by (simp add: bin_search_loop.simps[of num ids lo hi key] mid_def[symmetric] Let_def)
    next
      case neq: False
      show ?thesis
      proof (cases "num key < num (ids ! nat mid)")
        case True
        with False neq "1.prems" have "bin_search_loop num ids lo (mid - 1) key = r"
          by (simp add: bin_search_loop.simps[of num ids lo hi key] mid_def[symmetric] Let_def)
        from "1.IH"(1)[OF False mid_def neq True this] "1.prems" mid show ?thesis by simp
      next
        case ge: False
        with False neq "1.prems" have "bin_search_loop num ids (mid + 1) hi key = r"
          by (simp add: bin_search_loop.simps[of num ids lo hi key] mid_def[symmetric] Let_def)
        from "1.IH"(2)[OF False mid_def neq ge this] "1.prems" mid show ?thesis by simp
      qed
    qed
  qed
qed

lemma bin_search_loop_sorted:
  "sorted_wrt (\<lambda>a b. num a < num b) ids \<Longrightarrow> 0 \<le> lo \<Longrightarrow> hi < int (length ids) \<Longrightarrow>
   lo \<le> int k \<Longrightarrow> int k \<le> hi \<Longrightarrow>
   bin_search_loop num ids lo hi (ids ! k) = int k"
proof (induction num ids lo hi "ids ! k" rule: bin_search_loop.induct)
  case (1 num ids lo hi)
  have nth_less: "\<And>i j. i < j \<Longrightarrow> j < length ids \<Longrightarrow> num (ids ! i) < num (ids ! j)"
    using "1.prems"(1) by (simp add: sorted_wrt_iff_nth_less)
  define mid where "mid = (lo + hi) div 2"
  have range: "\<not> hi < lo" using "1.prems" by simp
  have mid: "lo \<le> mid" "mid \<le> hi" using range by (auto simp: mid_def)
  have k: "k < length ids" and m: "nat mid < length ids" using "1.prems" mid by auto
  show ?case
  proof (cases "ids ! nat mid = ids ! k")
    case True
    have "nat mid = k"
    proof (rule ccontr)
      assume "nat mid \<noteq> k"
      then consider "nat mid < k" | "k < nat mid" by linarith
      then show False using nth_less[of "nat mid" k] nth_less[of k "nat mid"] k m True
        by cases auto
    qed
    with True range "1.prems" mid show ?thesis
      by (simp add: bin_search_loop.simps[of num ids lo hi "ids ! k"] mid_def[symmetric] Let_def)
  next
    case neq: False
    show ?thesis
    proof (cases "num (ids ! k) < num (ids ! nat mid)")
      case True
      have "k < nat mid"
      proof (rule ccontr)
        assume "\<not> k < nat mid"
        with neq have "nat mid < k" by (cases "nat mid = k") auto
        with nth_less[of "nat mid" k] k True show False by simp
      qed
      then have le: "int k \<le> mid - 1" by linarith
      have "bin_search_loop num ids lo (mid - 1) (ids ! k) = int k"
        using "1.hyps"(1)[OF range mid_def neq True "1.prems"(1,2) _ "1.prems"(4) le]
          "1.prems"(3) mid by simp
      with range neq True show ?thesis
        by (simp add: bin_search_loop.simps[of num ids lo hi "ids ! k"] mid_def[symmetric] Let_def)
    next
      case ge: False
      have "nat mid < k"
      proof (rule ccontr)
        assume "\<not> nat mid < k"
        with neq have "k < nat mid" by (cases "nat mid = k") auto
        with nth_less[of k "nat mid"] m ge show False by simp
      qed
      then have le: "mid + 1 \<le> int k" by linarith
      have "bin_search_loop num ids (mid + 1) hi (ids ! k) = int k"
        using "1.hyps"(2)[OF range mid_def neq ge "1.prems"(1) _ "1.prems"(3) le "1.prems"(5)]
          "1.prems"(2) mid by simp
      with range neq ge show ?thesis
        by (simp add: bin_search_loop.simps[of num ids lo hi "ids ! k"] mid_def[symmetric] Let_def)
    qed
  qed
qed


lemma property_number_eq: "ecma_builtin_boolean_prototype_property_number = 3"
  by (simp add: ecma_builtin_boolean_prototype_property_number_def property_names_eq)

lemma search_result:
  assumes "ecma_builtin_bin_search_for_magic_string_id_in_array num ecma_builtin_property_names
             ecma_builtin_boolean_prototype_property_number string_id = r"
  shows "r = - 1 \<or> (\<exists>i<3. r = int i \<and> ecma_builtin_property_names ! i = string_id)"
proof (cases "r = - 1")
  case True
  then show ?thesis by simp
next
  case False
  from assms have "bin_search_loop num ecma_builtin_property_names 0 2 string_id = r"
    by (simp add: ecma_builtin_bin_search_for_magic_string_id_in_array_def property_number_eq)
  from bin_search_loop_found[OF this False]
  have "0 \<le> r" "r \<le> 2" "ecma_builtin_property_names ! nat r = string_id" by simp_all
  then have "nat r < 3 \<and> r = int (nat r) \<and> ecma_builtin_property_names ! nat r = string_id"
    by simp
  then show ?thesis by blast
qed

lemma search_sorted:
  assumes "sorted_wrt (\<lambda>a b. num a < num b) ecma_builtin_property_names" and "i < 3"
  shows "ecma_builtin_bin_search_for_magic_string_id_in_array num ecma_builtin_property_names
           ecma_builtin_boolean_prototype_property_number (ecma_builtin_property_names ! i)
         = int i"
proof -
  have "length ecma_builtin_property_names = 3" by (simp add: property_names_eq)
  with assms bin_search_loop_sorted[of num ecma_builtin_property_names 0 2 i]
  show ?thesis
    by (simp add: ecma_builtin_bin_search_for_magic_string_id_in_array_def property_number_eq)
qed

lemma search_absent:
  assumes "string_id \<notin> set ecma_builtin_property_names"
  shows "ecma_builtin_bin_search_for_magic_string_id_in_array num ecma_builtin_property_names
           ecma_builtin_boolean_prototype_property_number string_id = - 1"
proof -
  have len: "length ecma_builtin_property_names = 3" by (simp add: property_names_eq)
  from search_result[OF refl, of num string_id] assms len show ?thesis
    by (metis nth_mem)
qed

lemma instantiated_routine:
  "string_id = ECMA_MAGIC_STRING_TO_STRING_UL \<or> string_id = ECMA_MAGIC_STRING_VALUE_OF_UL \<Longrightarrow>
   instantiated_value_and_attributes string_id
   = Inr (Object_value (Routine_function_object ECMA_BUILTIN_ID_BOOLEAN_PROTOTYPE string_id),
          ECMA_PROPERTY_WRITABLE, ECMA_PROPERTY_NOT_ENUMERABLE, ECMA_PROPERTY_CONFIGURABLE)"
  by (auto simp: instantiated_value_and_attributes_def
      ECMA_BUILTIN_BOOLEAN_PROTOTYPE_OBJECT_ROUTINES_PROPERTY_LIST_def
      ecma_builtin_make_function_object_for_routine_def ecma_make_object_value_def)

lemma instantiated_constructor:
  "instantiated_value_and_attributes ECMA_MAGIC_STRING_CONSTRUCTOR
   = Inr (Object_value (Builtin_object ECMA_BUILTIN_ID_BOOLEAN),
          ECMA_PROPERTY_NOT_WRITABLE, ECMA_PROPERTY_NOT_ENUMERABLE,
          ECMA_PROPERTY_NOT_CONFIGURABLE)"
  by (simp add: instantiated_value_and_attributes_def
      ECMA_BUILTIN_BOOLEAN_PROTOTYPE_OBJECT_ROUTINES_PROPERTY_LIST_def
      ECMA_BUILTIN_BOOLEAN_PROTOTYPE_OBJECT_OBJECT_VALUES_PROPERTY_LIST_def
      ecma_builtin_get_def ecma_make_object_value_def)

lemma names_cases:
  "string_id \<in> set ecma_builtin_property_names \<Longrightarrow>
   string_id = ECMA_MAGIC_STRING_CONSTRUCTOR \<or> string_id = ECMA_MAGIC_STRING_TO_STRING_UL
   \<or> string_id = ECMA_MAGIC_STRING_VALUE_OF_UL"
  by (auto simp: property_names_eq)

lemma try_not_magic:
  assumes "ecma_builtin_is obj ECMA_BUILTIN_ID_BOOLEAN_PROTOTYPE"
    and "ecma_find_named_property obj name = None"
    and "ecma_is_string_magic name = None"
  shows "ecma_builtin_boolean_prototype_try_to_instantiate_property num obj name gc
         = Inr (None, obj, gc)"
  using assms by (simp add: ecma_builtin_boolean_prototype_try_to_instantiate_property_def)

lemma try_not_found:
  assumes "ecma_builtin_is obj ECMA_BUILTIN_ID_BOOLEAN_PROTOTYPE"
    and "ecma_find_named_property obj name = None"
    and "ecma_is_string_magic name = Some string_id"
    and "ecma_builtin_bin_search_for_magic_string_id_in_array num ecma_builtin_property_names
           ecma_builtin_boolean_prototype_property_number string_id = - 1"
  shows "ecma_builtin_boolean_prototype_try_to_instantiate_property num obj name gc
         = Inr (None, obj, gc)"
  using assms by (simp add: ecma_builtin_boolean_prototype_try_to_instantiate_property_def)

lemma try_found:
  assumes "ecma_builtin_is obj ECMA_BUILTIN_ID_BOOLEAN_PROTOTYPE"
    and "ecma_find_named_property obj name = None"
    and "ecma_is_string_magic name = Some string_id"
    and "ecma_builtin_bin_search_for_magic_string_id_in_array num ecma_builtin_property_names
           ecma_builtin_boolean_prototype_property_number string_id = int i"
    and "i < 32"
  shows "ecma_builtin_boolean_prototype_try_to_instantiate_property num obj name gc
         = (if \<not> bit (internal_mask_0_31 obj) i then Inr (None, obj, gc)
            else
              (case instantiated_value_and_attributes string_id of
                 Inl fault \<Rightarrow> Inl fault
               | Inr (val, writable, enumerable, configurable) \<Rightarrow>
                   Inr (Some \<lparr> prop_name = name, prop_value = val, prop_writable = writable,
                               prop_enumerable = enumerable,
                               prop_configurable = configurable \<rparr>,
                        obj\<lparr> internal_mask_0_31 :=
                                internal_mask_0_31 obj AND NOT (push_bit i 1),
                             named_properties :=
                                \<lparr> prop_name = name, prop_value = val,
                                  prop_writable = writable, prop_enumerable = enumerable,
                                  prop_configurable = configurable \<rparr>
                                # named_properties obj \<rparr>,
                        gc @ [Ecma_copy_value val False,
                              Ecma_gc_update_may_ref_younger_object_flag_by_value val,
                              Ecma_free_value val True])))"
proof -
  have bit_test: "(internal_mask_0_31 obj AND push_bit i 1 = 0) = (\<not> bit (internal_mask_0_31 obj) i)"
    using \<open>i < 32\<close> by (rule and_push_bit_eq_0_iff)
  show ?thesis
    using assms bit_test
    by (simp add: ecma_builtin_boolean_prototype_try_to_instantiate_property_def Let_def
        ecma_create_named_data_property_def ecma_copy_value_def
        split: sum.split prod.split)
qed


lemma instantiated_registered:
  assumes "string_id \<in> set ecma_builtin_property_names"
  shows "\<exists>p w e c. instantiated_value_and_attributes string_id = Inr (Object_value p, w, e, c)"
  using names_cases[OF assms] instantiated_routine[of string_id] instantiated_constructor
  by auto

lemma try_preconditions:
  assumes "ecma_builtin_boolean_prototype_try_to_instantiate_property num obj name gc = Inr res"
  shows "ecma_builtin_is obj ECMA_BUILTIN_ID_BOOLEAN_PROTOTYPE"
    and "ecma_find_named_property obj name = None"
proof -
  show "ecma_builtin_is obj ECMA_BUILTIN_ID_BOOLEAN_PROTOTYPE"
    using assms
    by (cases "ecma_builtin_is obj ECMA_BUILTIN_ID_BOOLEAN_PROTOTYPE")
      (simp_all add: ecma_builtin_boolean_prototype_try_to_instantiate_property_def)
  then show "ecma_find_named_property obj name = None"
    using assms
    by (cases "ecma_find_named_property obj name")
      (simp_all add: ecma_builtin_boolean_prototype_try_to_instantiate_property_def)
qed

lemma try_Inr_cases:
  assumes "ecma_builtin_boolean_prototype_try_to_instantiate_property num obj name gc
           = Inr (r, obj', gc')"
  obtains (unchanged) "r = None" "obj' = obj" "gc' = gc"
  | (instantiated) i p w e c where
      "i < 3"
      "ecma_is_string_magic name = Some (ecma_builtin_property_names ! i)"
      "ecma_builtin_bin_search_for_magic_string_id_in_array num ecma_builtin_property_names
         ecma_builtin_boolean_prototype_property_number (ecma_builtin_property_names ! i) = int i"
      "bit (internal_mask_0_31 obj) i"
      "instantiated_value_and_attributes (ecma_builtin_property_names ! i)
         = Inr (Object_value p, w, e, c)"
      "r = Some \<lparr> prop_name = name, prop_value = Object_value p, prop_writable = w,
                  prop_enumerable = e, prop_configurable = c \<rparr>"
      "obj' = obj\<lparr> internal_mask_0_31 := internal_mask_0_31 obj AND NOT (push_bit i 1),
                   named_properties :=
                     \<lparr> prop_name = name, prop_value = Object_value p, prop_writable = w,
                       prop_enumerable = e, prop_configurable = c \<rparr>
                     # named_properties obj \<rparr>"
      "gc' = gc @ [Ecma_copy_value (Object_value p) False,
                   Ecma_gc_update_may_ref_younger_object_flag_by_value (Object_value p),
                   Ecma_free_value (Object_value p) True]"
proof -
  note pre = try_preconditions[OF assms]
  show ?thesis
  proof (cases "ecma_is_string_magic name")
    case None
    from try_not_magic[OF pre None, of num gc] assms unchanged show ?thesis by simp
  next
    case (Some string_id)
    from search_result[OF refl, of num string_id]
    consider (absent) "ecma_builtin_bin_search_for_magic_string_id_in_array num
                         ecma_builtin_property_names
                         ecma_builtin_boolean_prototype_property_number string_id = - 1"
      | (found) i where "i < 3"
          "ecma_builtin_bin_search_for_magic_string_id_in_array num ecma_builtin_property_names
             ecma_builtin_boolean_prototype_property_number string_id = int i"
          "ecma_builtin_property_names ! i = string_id"
      by blast
    then show ?thesis
    proof cases
      case absent
      from try_not_found[OF pre Some absent, of gc] assms unchanged show ?thesis by simp
    next
      case found
      have i32: "i < 32" using found(1) by simp
      note eq = try_found[OF pre Some found(2) i32, of gc]
      show ?thesis
      proof (cases "bit (internal_mask_0_31 obj) i")
        case False
        with eq assms unchanged show ?thesis by simp
      next
        case True
        have "string_id \<in> set ecma_builtin_property_names"
          using found(1,3) by (auto simp: property_names_eq less_Suc_eq numeral_3_eq_3)
        from instantiated_registered[OF this] obtain p w e c where
          iva: "instantiated_value_and_attributes string_id = Inr (Object_value p, w, e, c)"
          by blast
        from eq assms True iva have
          "r = Some \<lparr> prop_name = name, prop_value = Object_value p, prop_writable = w,
                  prop_enumerable = e, prop_configurable = c \<rparr>"
          "obj' = obj\<lparr> internal_mask_0_31 := internal_mask_0_31 obj AND NOT (push_bit i 1),
                   named_properties :=
                     \<lparr> prop_name = name, prop_value = Object_value p, prop_writable = w,
                       prop_enumerable = e, prop_configurable = c \<rparr>
                     # named_properties obj \<rparr>"
          "gc' = gc @ [Ecma_copy_value (Object_value p) False,
                   Ecma_gc_update_may_ref_younger_object_flag_by_value (Object_value p),
                   Ecma_free_value (Object_value p) True]"
          by simp_all
        with instantiated[of i p w e c] found Some True iva show ?thesis by simp
      qed
    qed
  qed
qed

lemma try_masks:
  assumes "ecma_builtin_boolean_prototype_try_to_instantiate_property num obj name gc
           = Inr (r, obj', gc')"
  shows "(bit (internal_mask_0_31 obj') j \<longrightarrow> bit (internal_mask_0_31 obj) j)
       \<and> internal_mask_32_63 obj' = internal_mask_32_63 obj"
  using assms
proof (cases rule: try_Inr_cases)
  case unchanged
  then show ?thesis by simp
next
  case (instantiated i p w e c)
  then show ?thesis by (simp add: bit_and_iff)
qed

lemma evolves_masks:
  assumes "object_evolves num a b"
  shows "(\<forall>j. bit (internal_mask_0_31 b) j \<longrightarrow> bit (internal_mask_0_31 a) j)
       \<and> (\<forall>j. bit (internal_mask_32_63 b) j \<longrightarrow> bit (internal_mask_32_63 a) j)"
  using assms
proof (induction rule: object_evolves.induct)
  case (evolves_refl obj)
  show ?case by simp
next
  case (evolves_instantiate obj obj1 name gc r obj2 gc')
  from try_masks[OF evolves_instantiate.hyps(2)] evolves_instantiate.IH show ?case by simp
next
  case (evolves_other obj obj1 obj2)
  then show ?case by simp
qed

lemma names_distinct: "distinct ecma_builtin_property_names"
  by (simp add: property_names_eq)

lemma names_index_unique:
  assumes "i < 3" "j < 3" "ecma_builtin_property_names ! i = ecma_builtin_property_names ! j"
  shows "i = j"
  using assms names_distinct by (simp add: nth_eq_iff_index_eq property_names_eq)

section \<open>The claims on valueOf and toString\<close>

text \<open>
  Claim C1. \<^verbatim>\<open>valueOf\<close> returns \<open>Normal v\<close> when \<open>v\<close> is a primitive boolean. When
  \<open>v\<close> is an object whose class slot is the class tag of the Boolean objects, and the
  primitive boolean that its primitive-value slot stores is \<open>sv\<close>, it returns
  \<open>Normal sv\<close>. For every other value (neither a primitive boolean nor an object with
  that class tag: a number, a plain object) it returns \<open>Throw\<close> of a new TypeError
  object. (Where the primitive-value slot of a Boolean object does not store a boolean,
  the assertions of lines 152 and 158 stop the engine.)
\<close>

theorem value_of_specification:
  "(ecma_is_value_boolean v \<longrightarrow>
      ecma_builtin_boolean_prototype_object_value_of heap v = Inr (Normal v))
   \<and> (internal_class (heap p) = ECMA_MAGIC_STRING_BOOLEAN_UL
        \<and> internal_primitive_boolean_value (heap p) = Some sv
        \<and> ecma_is_value_boolean (Simple_value sv) \<longrightarrow>
      ecma_builtin_boolean_prototype_object_value_of heap (Object_value p)
        = Inr (Normal (Simple_value sv)))
   \<and> (\<not> ecma_is_value_boolean v
        \<and> \<not> (\<exists>q. v = Object_value q \<and> internal_class (heap q) = ECMA_MAGIC_STRING_BOOLEAN_UL)
      \<longrightarrow>
      ecma_builtin_boolean_prototype_object_value_of heap v
        = Inr (Throw (Object_value (Standard_error_object ECMA_ERROR_TYPE))))"
proof (intro conjI impI)
  assume "ecma_is_value_boolean v"
  then show "ecma_builtin_boolean_prototype_object_value_of heap v = Inr (Normal v)"
    by (rule value_of_boolean)
next
  assume "internal_class (heap p) = ECMA_MAGIC_STRING_BOOLEAN_UL
        \<and> internal_primitive_boolean_value (heap p) = Some sv
        \<and> ecma_is_value_boolean (Simple_value sv)"
  then show "ecma_builtin_boolean_prototype_object_value_of heap (Object_value p)
        = Inr (Normal (Simple_value sv))"
    by (simp add: value_of_boolean_object)
next
  assume other: "\<not> ecma_is_value_boolean v
        \<and> \<not> (\<exists>q. v = Object_value q \<and> internal_class (heap q) = ECMA_MAGIC_STRING_BOOLEAN_UL)"
  show "ecma_builtin_boolean_prototype_object_value_of heap v
        = Inr (Throw (Object_value (Standard_error_object ECMA_ERROR_TYPE)))"
  proof (cases "value_type v = ECMA_TYPE_OBJECT")
    case True
    then obtain q where "v = Object_value q" by (cases v) simp_all
    with other value_of_other_object[of heap q] show ?thesis
      by (simp add: type_error_completion_def)
  next
    case False
    with other value_of_not_object[of v heap] show ?thesis
      by (simp add: type_error_completion_def)
  qed
qed

text \<open>
  The five examples of the spec: \<^verbatim>\<open>true\<close>, \<^verbatim>\<open>false\<close>, the Boolean object for
  \<^verbatim>\<open>true\<close>, the number 42 and a plain object.
\<close>

theorem value_of_specification_witness:
  "ecma_builtin_boolean_prototype_object_value_of example_heap
     (Simple_value ECMA_SIMPLE_VALUE_TRUE) = Inr (Normal (Simple_value ECMA_SIMPLE_VALUE_TRUE))
   \<and> ecma_builtin_boolean_prototype_object_value_of example_heap
     (Simple_value ECMA_SIMPLE_VALUE_FALSE) = Inr (Normal (Simple_value ECMA_SIMPLE_VALUE_FALSE))
   \<and> ecma_builtin_boolean_prototype_object_value_of example_heap
     (Object_value (Heap_object 1)) = Inr (Normal (Simple_value ECMA_SIMPLE_VALUE_TRUE))
   \<and> ecma_builtin_boolean_prototype_object_value_of example_heap number_42
     = Inr (Throw (Object_value (Standard_error_object ECMA_ERROR_TYPE)))
   \<and> ecma_builtin_boolean_prototype_object_value_of example_heap
     (Object_value (Heap_object 2))
     = Inr (Throw (Object_value (Standard_error_object ECMA_ERROR_TYPE)))"
proof (intro conjI)
  show "ecma_builtin_boolean_prototype_object_value_of example_heap
     (Simple_value ECMA_SIMPLE_VALUE_TRUE) = Inr (Normal (Simple_value ECMA_SIMPLE_VALUE_TRUE))"
    using value_of_specification[where v = "Simple_value ECMA_SIMPLE_VALUE_TRUE"
        and heap = example_heap]
    by (simp add: ecma_is_value_boolean_def)
  show "ecma_builtin_boolean_prototype_object_value_of example_heap
     (Simple_value ECMA_SIMPLE_VALUE_FALSE) = Inr (Normal (Simple_value ECMA_SIMPLE_VALUE_FALSE))"
    using value_of_specification[where v = "Simple_value ECMA_SIMPLE_VALUE_FALSE"
        and heap = example_heap]
    by (simp add: ecma_is_value_boolean_def)
  show "ecma_builtin_boolean_prototype_object_value_of example_heap
     (Object_value (Heap_object 1)) = Inr (Normal (Simple_value ECMA_SIMPLE_VALUE_TRUE))"
    using value_of_specification[where p = "Heap_object 1" and heap = example_heap
        and sv = ECMA_SIMPLE_VALUE_TRUE]
    by (simp add: ecma_is_value_boolean_def example_heap_def boolean_object_def)
  show "ecma_builtin_boolean_prototype_object_value_of example_heap number_42
     = Inr (Throw (Object_value (Standard_error_object ECMA_ERROR_TYPE)))"
    using value_of_specification[where v = number_42 and heap = example_heap]
    by (simp add: ecma_is_value_boolean_def number_42_def)
  show "ecma_builtin_boolean_prototype_object_value_of example_heap
     (Object_value (Heap_object 2))
     = Inr (Throw (Object_value (Standard_error_object ECMA_ERROR_TYPE)))"
    using value_of_specification[where v = "Object_value (Heap_object 2)"
        and heap = example_heap]
    by (simp add: ecma_is_value_boolean_def example_heap_def plain_object_def)
qed

text \<open>
  Claim C2. \<^verbatim>\<open>toString\<close> evaluates \<^verbatim>\<open>valueOf\<close> first. If that is \<open>Throw e\<close>,
  \<^verbatim>\<open>toString\<close> is the same \<open>Throw e\<close>; if it is \<open>Normal\<close> of \<^verbatim>\<open>true\<close>,
  \<^verbatim>\<open>toString\<close> is \<open>Normal\<close> of the magic string "true"; if it is \<open>Normal\<close> of
  \<^verbatim>\<open>false\<close>, \<^verbatim>\<open>toString\<close> is \<open>Normal\<close> of the magic string "false".
\<close>

theorem to_string_specification:
  "(ecma_builtin_boolean_prototype_object_value_of heap v = Inr (Throw e) \<longrightarrow>
      ecma_builtin_boolean_prototype_object_to_string heap v = Inr (Throw e))
   \<and> (ecma_builtin_boolean_prototype_object_value_of heap v
        = Inr (Normal (Simple_value ECMA_SIMPLE_VALUE_TRUE)) \<longrightarrow>
      ecma_builtin_boolean_prototype_object_to_string heap v
        = Inr (Normal (String_value (Magic_string ECMA_MAGIC_STRING_TRUE)))
      \<and> ecma_string_chars (Magic_string ECMA_MAGIC_STRING_TRUE) = Some ''true'')
   \<and> (ecma_builtin_boolean_prototype_object_value_of heap v
        = Inr (Normal (Simple_value ECMA_SIMPLE_VALUE_FALSE)) \<longrightarrow>
      ecma_builtin_boolean_prototype_object_to_string heap v
        = Inr (Normal (String_value (Magic_string ECMA_MAGIC_STRING_FALSE)))
      \<and> ecma_string_chars (Magic_string ECMA_MAGIC_STRING_FALSE) = Some ''false'')"
  using to_string_of_throw[of heap v e] to_string_of_true[of heap v] to_string_of_false[of heap v]
  by simp

text \<open>The three examples of the spec: \<^verbatim>\<open>true\<close>, \<^verbatim>\<open>false\<close> and the number 42.\<close>

theorem to_string_specification_witness:
  "ecma_builtin_boolean_prototype_object_to_string example_heap
     (Simple_value ECMA_SIMPLE_VALUE_TRUE)
     = Inr (Normal (String_value (Magic_string ECMA_MAGIC_STRING_TRUE)))
   \<and> ecma_builtin_boolean_prototype_object_to_string example_heap
     (Simple_value ECMA_SIMPLE_VALUE_FALSE)
     = Inr (Normal (String_value (Magic_string ECMA_MAGIC_STRING_FALSE)))
   \<and> ecma_builtin_boolean_prototype_object_to_string example_heap number_42
     = Inr (Throw (Object_value (Standard_error_object ECMA_ERROR_TYPE)))"
proof (intro conjI)
  have t: "ecma_builtin_boolean_prototype_object_value_of example_heap
             (Simple_value ECMA_SIMPLE_VALUE_TRUE)
           = Inr (Normal (Simple_value ECMA_SIMPLE_VALUE_TRUE))"
    by (simp add: value_of_boolean ecma_is_value_boolean_def)
  have f: "ecma_builtin_boolean_prototype_object_value_of example_heap
             (Simple_value ECMA_SIMPLE_VALUE_FALSE)
           = Inr (Normal (Simple_value ECMA_SIMPLE_VALUE_FALSE))"
    by (simp add: value_of_boolean ecma_is_value_boolean_def)
  have n: "ecma_builtin_boolean_prototype_object_value_of example_heap number_42
           = Inr (Throw (Object_value (Standard_error_object ECMA_ERROR_TYPE)))"
    using example_value_of_42 by (simp add: type_error_completion_def)
  show "ecma_builtin_boolean_prototype_object_to_string example_heap
     (Simple_value ECMA_SIMPLE_VALUE_TRUE)
     = Inr (Normal (String_value (Magic_string ECMA_MAGIC_STRING_TRUE)))"
    using to_string_specification[where heap = example_heap
        and v = "Simple_value ECMA_SIMPLE_VALUE_TRUE"] t by simp
  show "ecma_builtin_boolean_prototype_object_to_string example_heap
     (Simple_value ECMA_SIMPLE_VALUE_FALSE)
     = Inr (Normal (String_value (Magic_string ECMA_MAGIC_STRING_FALSE)))"
    using to_string_specification[where heap = example_heap
        and v = "Simple_value ECMA_SIMPLE_VALUE_FALSE"] f by simp
  show "ecma_builtin_boolean_prototype_object_to_string example_heap number_42
     = Inr (Throw (Object_value (Standard_error_object ECMA_ERROR_TYPE)))"
    using to_string_specification[where heap = example_heap and v = number_42
        and e = "Object_value (Standard_error_object ECMA_ERROR_TYPE)"] n by simp
qed

text \<open>
  Claim C10. A completion value that \<^verbatim>\<open>valueOf\<close> returns is \<open>Normal\<close> of
  \<^verbatim>\<open>true\<close>, \<open>Normal\<close> of \<^verbatim>\<open>false\<close> or a \<open>Throw\<close>, never \<open>Normal\<close> of
  another value; and the assertion of \<^verbatim>\<open>toString\<close> (line 113), that a normal
  completion value of \<^verbatim>\<open>valueOf\<close> that is not \<^verbatim>\<open>true\<close> is \<^verbatim>\<open>false\<close>, never
  fails.
\<close>

theorem value_of_boolean_or_throw:
  "(ecma_builtin_boolean_prototype_object_value_of heap v = Inr c \<longrightarrow>
      c = Normal (Simple_value ECMA_SIMPLE_VALUE_TRUE)
      \<or> c = Normal (Simple_value ECMA_SIMPLE_VALUE_FALSE)
      \<or> (\<exists>e. c = Throw e))
   \<and> ecma_builtin_boolean_prototype_object_to_string heap v \<noteq> Inl (Assertion_failed 113)"
proof
  show "ecma_builtin_boolean_prototype_object_value_of heap v = Inr c \<longrightarrow>
      c = Normal (Simple_value ECMA_SIMPLE_VALUE_TRUE)
      \<or> c = Normal (Simple_value ECMA_SIMPLE_VALUE_FALSE)
      \<or> (\<exists>e. c = Throw e)"
    using value_of_results[of heap v c] by (auto simp: type_error_completion_def)
next
  show "ecma_builtin_boolean_prototype_object_to_string heap v \<noteq> Inl (Assertion_failed 113)"
  proof (cases "ecma_builtin_boolean_prototype_object_value_of heap v")
    case (Inl fault)
    from value_of_faults[OF Inl] to_string_of_fault[OF Inl] show ?thesis by auto
  next
    case (Inr c')
    from value_of_results[OF Inr]
    consider "c' = Normal (Simple_value ECMA_SIMPLE_VALUE_TRUE)"
      | "c' = Normal (Simple_value ECMA_SIMPLE_VALUE_FALSE)"
      | "c' = type_error_completion" by blast
    then show ?thesis
    proof cases
      case 1
      with Inr to_string_of_true[of heap v] show ?thesis by simp
    next
      case 2
      with Inr to_string_of_false[of heap v] show ?thesis by simp
    next
      case 3
      with Inr to_string_of_throw[of heap v] show ?thesis
        by (simp add: type_error_completion_def)
    qed
  qed
qed

text \<open>The Boolean object for \<^verbatim>\<open>true\<close> of the example heap.\<close>

theorem value_of_boolean_or_throw_witness:
  "ecma_builtin_boolean_prototype_object_value_of example_heap (Object_value (Heap_object 1))
     = Inr (Normal (Simple_value ECMA_SIMPLE_VALUE_TRUE))
   \<and> ecma_builtin_boolean_prototype_object_to_string example_heap
        (Object_value (Heap_object 1)) \<noteq> Inl (Assertion_failed 113)"
  using value_of_boolean_or_throw[of example_heap "Object_value (Heap_object 1)"
      "Normal (Simple_value ECMA_SIMPLE_VALUE_TRUE)"]
    example_value_of_true_object
  by blast

section \<open>Further properties of the dispatcher and of the examples\<close>

lemma find_routine_cases:
  "find (\<lambda>r. routine_name r = routine_id)
     ECMA_BUILTIN_BOOLEAN_PROTOTYPE_OBJECT_ROUTINES_PROPERTY_LIST = Some r \<Longrightarrow>
   (routine_id = ECMA_MAGIC_STRING_TO_STRING_UL \<or> routine_id = ECMA_MAGIC_STRING_VALUE_OF_UL)
   \<and> routine_name r = routine_id \<and> routine_args_number r = 0 \<and> routine_length r = 0"
  by (auto simp: ECMA_BUILTIN_BOOLEAN_PROTOTYPE_OBJECT_ROUTINES_PROPERTY_LIST_def
      split: if_splits)

lemma dispatch_to_string:
  "ecma_builtin_boolean_prototype_dispatch_routine heap ECMA_MAGIC_STRING_TO_STRING_UL this
     arguments_list arguments_number
   = ecma_builtin_boolean_prototype_object_to_string heap this"
  by (simp add: ecma_builtin_boolean_prototype_dispatch_routine_def
      ECMA_BUILTIN_BOOLEAN_PROTOTYPE_OBJECT_ROUTINES_PROPERTY_LIST_def)

lemma dispatch_value_of:
  "ecma_builtin_boolean_prototype_dispatch_routine heap ECMA_MAGIC_STRING_VALUE_OF_UL this
     arguments_list arguments_number
   = ecma_builtin_boolean_prototype_object_value_of heap this"
  by (simp add: ecma_builtin_boolean_prototype_dispatch_routine_def
      ECMA_BUILTIN_BOOLEAN_PROTOTYPE_OBJECT_ROUTINES_PROPERTY_LIST_def)

lemma example_numbering_sorted:
  "sorted_wrt (\<lambda>a b. example_numbering a < example_numbering b) ecma_builtin_property_names"
  by (simp add: property_names_eq)

lemma prototype_preconditions:
  "ecma_builtin_is boolean_prototype_object ECMA_BUILTIN_ID_BOOLEAN_PROTOTYPE"
  "ecma_find_named_property boolean_prototype_object name = None"
  by (simp_all add: ecma_builtin_is_def ecma_find_named_property_def boolean_prototype_object_def)

lemma is_string_magic_Some:
  "ecma_is_string_magic name = Some string_id \<Longrightarrow> name = Magic_string string_id"
  by (cases name) (simp_all add: ecma_is_string_magic_def)

lemma less_3_cases: "i < (3::nat) \<Longrightarrow> i = 0 \<or> i = 1 \<or> i = 2"
  by arith

lemma example_instantiate_to_string:
  "ecma_builtin_boolean_prototype_try_to_instantiate_property example_numbering
     boolean_prototype_object (Magic_string ECMA_MAGIC_STRING_TO_STRING_UL) []
   = Inr (Some to_string_property,
          boolean_prototype_object
            \<lparr> internal_mask_0_31 := 5, named_properties := [to_string_property] \<rparr>,
          [Ecma_copy_value to_string_function False,
           Ecma_gc_update_may_ref_younger_object_flag_by_value to_string_function,
           Ecma_free_value to_string_function True])"
proof -
  have s: "ecma_builtin_bin_search_for_magic_string_id_in_array example_numbering
             ecma_builtin_property_names ecma_builtin_boolean_prototype_property_number
             ECMA_MAGIC_STRING_TO_STRING_UL = int 1"
    using search_sorted[OF example_numbering_sorted, of 1] by (simp add: property_names_eq)
  have m: "ecma_is_string_magic (Magic_string ECMA_MAGIC_STRING_TO_STRING_UL)
           = Some ECMA_MAGIC_STRING_TO_STRING_UL"
    by (simp add: ecma_is_string_magic_def)
  have b: "bit (7 :: 32 word) 1" by (simp add: bit_iff_odd)
  have w: "(7 :: 32 word) AND NOT (push_bit 1 1) = 5" by simp
  show ?thesis
    using try_found[OF prototype_preconditions m s, of "[]"] b w
    by (simp add: instantiated_routine boolean_prototype_object_def to_string_property_def
        to_string_function_def)
qed

lemma example_instantiate_constructor:
  "ecma_builtin_boolean_prototype_try_to_instantiate_property example_numbering
     boolean_prototype_object (Magic_string ECMA_MAGIC_STRING_CONSTRUCTOR) []
   = Inr (Some constructor_property,
          boolean_prototype_object
            \<lparr> internal_mask_0_31 := 6, named_properties := [constructor_property] \<rparr>,
          [Ecma_copy_value boolean_constructor False,
           Ecma_gc_update_may_ref_younger_object_flag_by_value boolean_constructor,
           Ecma_free_value boolean_constructor True])"
proof -
  have s: "ecma_builtin_bin_search_for_magic_string_id_in_array example_numbering
             ecma_builtin_property_names ecma_builtin_boolean_prototype_property_number
             ECMA_MAGIC_STRING_CONSTRUCTOR = int 0"
    using search_sorted[OF example_numbering_sorted, of 0] by (simp add: property_names_eq)
  have m: "ecma_is_string_magic (Magic_string ECMA_MAGIC_STRING_CONSTRUCTOR)
           = Some ECMA_MAGIC_STRING_CONSTRUCTOR"
    by (simp add: ecma_is_string_magic_def)
  have b: "bit (7 :: 32 word) 0" by (simp add: bit_iff_odd)
  have w: "(7 :: 32 word) AND NOT (push_bit 0 1) = 6" by simp
  show ?thesis
    using try_found[OF prototype_preconditions m s, of "[]"] b w
    by (simp add: instantiated_constructor boolean_prototype_object_def
        constructor_property_def boolean_constructor_def)
qed

section \<open>The claims on the dispatcher and on the lazy instantiation\<close>

text \<open>
  Claim C6. \<^verbatim>\<open>get_routine_parameters_number\<close> returns 0 for the routine identifier
  of \<^verbatim>\<open>toString\<close> and 0 for that of \<^verbatim>\<open>valueOf\<close>. The function has the routine
  identifier as its one argument: neither an object, nor a mask, nor a number of arguments
  of a call is among what it reads, so its result is the same whatever their state.
\<close>

theorem routine_parameters_number_zero:
  "ecma_builtin_boolean_prototype_get_routine_parameters_number ECMA_MAGIC_STRING_TO_STRING_UL
     = Inr 0
   \<and> ecma_builtin_boolean_prototype_get_routine_parameters_number ECMA_MAGIC_STRING_VALUE_OF_UL
     = Inr 0"
  by (simp add: ecma_builtin_boolean_prototype_get_routine_parameters_number_def
      ECMA_BUILTIN_BOOLEAN_PROTOTYPE_OBJECT_ROUTINES_PROPERTY_LIST_def)

text \<open>
  Claim C7. For a routine of the list of routines (all of them have a fixed number of
  arguments, which is 0), a call of the dispatcher with at least as many arguments as the
  routine declares returns what the call with exactly the declared arguments returns; and
  an argument that the call does not pass is \<^verbatim>\<open>undefined\<close>.
\<close>

theorem dispatch_surplus_arguments:
  "(find (\<lambda>r. routine_name r = routine_id)
      ECMA_BUILTIN_BOOLEAN_PROTOTYPE_OBJECT_ROUTINES_PROPERTY_LIST = Some r
    \<and> routine_args_number r \<le> arguments_number \<longrightarrow>
    ecma_builtin_boolean_prototype_dispatch_routine heap routine_id this
      arguments_list arguments_number
    = ecma_builtin_boolean_prototype_dispatch_routine heap routine_id this
      (take (routine_args_number r) arguments_list) (routine_args_number r))
   \<and> (arguments_number < n \<longrightarrow>
        ROUTINE_ARG arguments_list arguments_number n = Simple_value ECMA_SIMPLE_VALUE_UNDEFINED)"
proof (intro conjI impI)
  assume a: "find (\<lambda>r. routine_name r = routine_id)
      ECMA_BUILTIN_BOOLEAN_PROTOTYPE_OBJECT_ROUTINES_PROPERTY_LIST = Some r
    \<and> routine_args_number r \<le> arguments_number"
  from find_routine_cases[of routine_id r] a
  have "routine_id = ECMA_MAGIC_STRING_TO_STRING_UL \<or> routine_id = ECMA_MAGIC_STRING_VALUE_OF_UL"
    by simp
  then show "ecma_builtin_boolean_prototype_dispatch_routine heap routine_id this
      arguments_list arguments_number
    = ecma_builtin_boolean_prototype_dispatch_routine heap routine_id this
      (take (routine_args_number r) arguments_list) (routine_args_number r)"
    by (auto simp: dispatch_to_string dispatch_value_of)
next
  assume "arguments_number < n"
  then show "ROUTINE_ARG arguments_list arguments_number n
             = Simple_value ECMA_SIMPLE_VALUE_UNDEFINED"
    by (simp add: ROUTINE_ARG_def value_undefined_def)
qed

text \<open>
  \<^verbatim>\<open>toString\<close> on \<^verbatim>\<open>true\<close> with two surplus arguments, and the second argument
  of a call that passes one.
\<close>

theorem dispatch_surplus_arguments_witness:
  "ecma_builtin_boolean_prototype_dispatch_routine example_heap ECMA_MAGIC_STRING_TO_STRING_UL
     (Simple_value ECMA_SIMPLE_VALUE_TRUE) [number_42, Simple_value ECMA_SIMPLE_VALUE_NULL] 2
   = ecma_builtin_boolean_prototype_dispatch_routine example_heap ECMA_MAGIC_STRING_TO_STRING_UL
     (Simple_value ECMA_SIMPLE_VALUE_TRUE) [] 0
   \<and> ROUTINE_ARG [number_42] 1 2 = Simple_value ECMA_SIMPLE_VALUE_UNDEFINED"
proof -
  define r where "r = \<lparr> routine_name = ECMA_MAGIC_STRING_TO_STRING_UL,
        routine_c_function =
          (\<lambda>heap this args. ecma_builtin_boolean_prototype_object_to_string heap this),
        routine_args_number = 0,
        routine_length = 0 \<rparr>"
  have f: "find (\<lambda>r. routine_name r = ECMA_MAGIC_STRING_TO_STRING_UL)
      ECMA_BUILTIN_BOOLEAN_PROTOTYPE_OBJECT_ROUTINES_PROPERTY_LIST = Some r"
    by (simp add: ECMA_BUILTIN_BOOLEAN_PROTOTYPE_OBJECT_ROUTINES_PROPERTY_LIST_def r_def)
  have a: "routine_args_number r = 0" by (simp add: r_def)
  show ?thesis
    using dispatch_surplus_arguments[of ECMA_MAGIC_STRING_TO_STRING_UL r 2 example_heap
        "Simple_value ECMA_SIMPLE_VALUE_TRUE" "[number_42, Simple_value ECMA_SIMPLE_VALUE_NULL]" ]
      dispatch_surplus_arguments[of ECMA_MAGIC_STRING_TO_STRING_UL r 1 example_heap
        "Simple_value ECMA_SIMPLE_VALUE_TRUE" "[number_42]" 2]
      f a
    by simp
qed

text \<open>
  Claim C3. No step of a built-in object sets a bit of its mask that is clear. A run of
  \<^verbatim>\<open>try_to_instantiate_property\<close> that returns a property is for a name of the array
  of names, clears the bit of the mask at the index of that name and changes no other
  bit; and after it, whatever happens to the object, that bit is clear, and every run for
  the same name (on the object without a property of that name, as the function expects
  it) returns \<^verbatim>\<open>NULL\<close> and leaves the object as it is. So the function returns a
  property at most once for each name.
\<close>

theorem instantiate_at_most_once:
  "(object_evolves num a b \<longrightarrow>
      (\<forall>j. bit (internal_mask_0_31 b) j \<longrightarrow> bit (internal_mask_0_31 a) j)
      \<and> (\<forall>j. bit (internal_mask_32_63 b) j \<longrightarrow> bit (internal_mask_32_63 a) j))
   \<and> (ecma_builtin_boolean_prototype_try_to_instantiate_property num obj name gc
        = Inr (Some new_prop, obj1, gc1) \<longrightarrow>
      (\<exists>i < length ecma_builtin_property_names.
         name = Magic_string (ecma_builtin_property_names ! i)
         \<and> bit (internal_mask_0_31 obj) i
         \<and> (\<forall>j. bit (internal_mask_0_31 obj1) j = (bit (internal_mask_0_31 obj) j \<and> j \<noteq> i))
         \<and> internal_mask_32_63 obj1 = internal_mask_32_63 obj
         \<and> (\<forall>obj2 gc2.
               object_evolves num obj1 obj2
               \<and> ecma_builtin_is obj2 ECMA_BUILTIN_ID_BOOLEAN_PROTOTYPE
               \<and> ecma_find_named_property obj2 name = None
               \<longrightarrow> \<not> bit (internal_mask_0_31 obj2) i
                   \<and> ecma_builtin_boolean_prototype_try_to_instantiate_property num obj2 name gc2
                       = Inr (None, obj2, gc2))))"
proof (intro conjI impI)
  assume "object_evolves num a b"
  from evolves_masks[OF this]
  show "\<forall>j. bit (internal_mask_0_31 b) j \<longrightarrow> bit (internal_mask_0_31 a) j"
    and "\<forall>j. bit (internal_mask_32_63 b) j \<longrightarrow> bit (internal_mask_32_63 a) j"
    by simp_all
next
  assume "ecma_builtin_boolean_prototype_try_to_instantiate_property num obj name gc
        = Inr (Some new_prop, obj1, gc1)"
  then show "\<exists>i < length ecma_builtin_property_names.
         name = Magic_string (ecma_builtin_property_names ! i)
         \<and> bit (internal_mask_0_31 obj) i
         \<and> (\<forall>j. bit (internal_mask_0_31 obj1) j = (bit (internal_mask_0_31 obj) j \<and> j \<noteq> i))
         \<and> internal_mask_32_63 obj1 = internal_mask_32_63 obj
         \<and> (\<forall>obj2 gc2.
               object_evolves num obj1 obj2
               \<and> ecma_builtin_is obj2 ECMA_BUILTIN_ID_BOOLEAN_PROTOTYPE
               \<and> ecma_find_named_property obj2 name = None
               \<longrightarrow> \<not> bit (internal_mask_0_31 obj2) i
                   \<and> ecma_builtin_boolean_prototype_try_to_instantiate_property num obj2 name gc2
                       = Inr (None, obj2, gc2))"
  proof (cases rule: try_Inr_cases)
    case unchanged
    then show ?thesis by simp
  next
    case (instantiated i p w e c)
    have len: "i < length ecma_builtin_property_names"
      using instantiated(1) by (simp add: property_names_eq)
    have i32: "i < 32" using instantiated(1) by simp
    note name = is_string_magic_Some[OF instantiated(2)]
    have cleared: "\<forall>j. bit (internal_mask_0_31 obj1) j = (bit (internal_mask_0_31 obj) j \<and> j \<noteq> i)"
      using instantiated(7) bit_and_not_push_bit[of "internal_mask_0_31 obj" i] by simp
    have upper: "internal_mask_32_63 obj1 = internal_mask_32_63 obj"
      using instantiated(7) by simp
    have later: "\<not> bit (internal_mask_0_31 obj2) i
                 \<and> ecma_builtin_boolean_prototype_try_to_instantiate_property num obj2 name gc2
                     = Inr (None, obj2, gc2)"
      if ev: "object_evolves num obj1 obj2"
        and pre: "ecma_builtin_is obj2 ECMA_BUILTIN_ID_BOOLEAN_PROTOTYPE"
          "ecma_find_named_property obj2 name = None"
      for obj2 gc2
    proof -
      from evolves_masks[OF ev] cleared have clear: "\<not> bit (internal_mask_0_31 obj2) i"
        by blast
      from try_found[OF pre instantiated(2,3) i32, of gc2] clear show ?thesis by simp
    qed
    from len name instantiated(4) cleared upper later show ?thesis by blast
  qed
qed

text \<open>
  \<^verbatim>\<open>toString\<close> is instantiated on the example object, the property is deleted, and
  the function is called for \<^verbatim>\<open>toString\<close> again.
\<close>

theorem instantiate_at_most_once_witness:
  "ecma_builtin_boolean_prototype_try_to_instantiate_property example_numbering
     boolean_prototype_object (Magic_string ECMA_MAGIC_STRING_TO_STRING_UL) []
   = Inr (Some to_string_property,
          boolean_prototype_object
            \<lparr> internal_mask_0_31 := 5, named_properties := [to_string_property] \<rparr>,
          [Ecma_copy_value to_string_function False,
           Ecma_gc_update_may_ref_younger_object_flag_by_value to_string_function,
           Ecma_free_value to_string_function True])
   \<and> object_evolves example_numbering
        (boolean_prototype_object
           \<lparr> internal_mask_0_31 := 5, named_properties := [to_string_property] \<rparr>)
        (boolean_prototype_object\<lparr>internal_mask_0_31 := 5\<rparr>)
   \<and> ecma_builtin_is (boolean_prototype_object\<lparr>internal_mask_0_31 := 5\<rparr>)
        ECMA_BUILTIN_ID_BOOLEAN_PROTOTYPE
   \<and> ecma_find_named_property (boolean_prototype_object\<lparr>internal_mask_0_31 := 5\<rparr>)
        (Magic_string ECMA_MAGIC_STRING_TO_STRING_UL) = None
   \<and> \<not> bit (internal_mask_0_31 (boolean_prototype_object\<lparr>internal_mask_0_31 := 5\<rparr>)) 1
   \<and> ecma_builtin_boolean_prototype_try_to_instantiate_property example_numbering
        (boolean_prototype_object\<lparr>internal_mask_0_31 := 5\<rparr>)
        (Magic_string ECMA_MAGIC_STRING_TO_STRING_UL) [Ecma_free_value to_string_function True]
      = Inr (None, boolean_prototype_object\<lparr>internal_mask_0_31 := 5\<rparr>,
             [Ecma_free_value to_string_function True])"
proof -
  let ?obj1 = "boolean_prototype_object
                 \<lparr> internal_mask_0_31 := 5, named_properties := [to_string_property] \<rparr>"
  let ?obj2 = "boolean_prototype_object\<lparr>internal_mask_0_31 := 5\<rparr>"
  let ?name = "Magic_string ECMA_MAGIC_STRING_TO_STRING_UL"
  note first = example_instantiate_to_string
  have ev: "object_evolves example_numbering ?obj1 ?obj2"
    by (rule evolves_other[OF evolves_refl]) simp_all
  have pre: "ecma_builtin_is ?obj2 ECMA_BUILTIN_ID_BOOLEAN_PROTOTYPE"
    and absent: "ecma_find_named_property ?obj2 ?name = None"
    by (simp_all add: ecma_builtin_is_def ecma_find_named_property_def
        boolean_prototype_object_def)
  have idx: "i = 1"
    if "i < length ecma_builtin_property_names"
      and "?name = Magic_string (ecma_builtin_property_names ! i)" for i
    using that by (auto simp: property_names_eq less_Suc_eq numeral_3_eq_3)
  note once = instantiate_at_most_once[where num = example_numbering
      and obj = boolean_prototype_object and name = ?name and gc = "[]",
      THEN conjunct2, THEN mp, OF first]
  then obtain i where all:
    "i < length ecma_builtin_property_names \<and>
     ?name = Magic_string (ecma_builtin_property_names ! i) \<and>
     bit (internal_mask_0_31 boolean_prototype_object) i \<and>
     (\<forall>j. bit (internal_mask_0_31 ?obj1) j
          = (bit (internal_mask_0_31 boolean_prototype_object) j \<and> j \<noteq> i)) \<and>
     internal_mask_32_63 ?obj1 = internal_mask_32_63 boolean_prototype_object \<and>
     (\<forall>obj2 gc2.
         object_evolves example_numbering ?obj1 obj2 \<and>
         ecma_builtin_is obj2 ECMA_BUILTIN_ID_BOOLEAN_PROTOTYPE \<and>
         ecma_find_named_property obj2 ?name = None \<longrightarrow>
         \<not> bit (internal_mask_0_31 obj2) i \<and>
         ecma_builtin_boolean_prototype_try_to_instantiate_property example_numbering obj2
           ?name gc2 = Inr (None, obj2, gc2))" ..
  have i: "i = 1"
    using idx[OF all[THEN conjunct1] all[THEN conjunct2, THEN conjunct1]] .
  note later = all[THEN conjunct2, THEN conjunct2, THEN conjunct2, THEN conjunct2,
      THEN conjunct2, THEN spec, THEN spec, THEN mp, OF conjI[OF ev conjI[OF pre absent]]]
  from later i have clear: "\<not> bit (internal_mask_0_31 ?obj2) 1"
    and again: "ecma_builtin_boolean_prototype_try_to_instantiate_property example_numbering
                  ?obj2 ?name [Ecma_free_value to_string_function True]
                = Inr (None, ?obj2, [Ecma_free_value to_string_function True])"
    by simp_all
  show ?thesis
    by (intro conjI) (rule first, rule ev, rule pre, rule absent, rule clear, rule again)
qed

text \<open>
  Claim C4. The result of \<^verbatim>\<open>try_to_instantiate_property\<close> is a property or
  \<^verbatim>\<open>NULL\<close>; it is no completion value, so there is no \<^verbatim>\<open>Throw\<close>. On the
  Boolean.prototype object, for a name that the object has no property of, and with the
  array of names sorted by the numeric values of the identifiers (the contract of the
  binary search), the function returns, and it returns \<^verbatim>\<open>NULL\<close> exactly when the name
  is not a magic string, or is not in the array of names, or the bit of the mask at the
  index of the name is clear; otherwise it returns a property.
\<close>

theorem try_to_instantiate_failure_modes:
  assumes "ecma_builtin_is obj ECMA_BUILTIN_ID_BOOLEAN_PROTOTYPE"
    and "ecma_find_named_property obj name = None"
    and "sorted_wrt (\<lambda>a b. num a < num b) ecma_builtin_property_names"
  shows "\<exists>r obj' gc'.
           ecma_builtin_boolean_prototype_try_to_instantiate_property num obj name gc
             = Inr (r, obj', gc')
           \<and> ((r = None) =
                (ecma_is_string_magic name = None
                 \<or> (\<exists>string_id. ecma_is_string_magic name = Some string_id
                       \<and> string_id \<notin> set ecma_builtin_property_names)
                 \<or> (\<exists>i < length ecma_builtin_property_names.
                       ecma_is_string_magic name = Some (ecma_builtin_property_names ! i)
                       \<and> \<not> bit (internal_mask_0_31 obj) i)))"
proof (cases "ecma_is_string_magic name")
  case None
  from try_not_magic[OF assms(1,2) None, of num gc] None show ?thesis by simp
next
  case (Some string_id)
  show ?thesis
  proof (cases "string_id \<in> set ecma_builtin_property_names")
    case False
    from try_not_found[OF assms(1,2) Some search_absent[OF False], of num gc] Some False
    show ?thesis by auto
  next
    case True
    then obtain i where len: "i < length ecma_builtin_property_names"
      and nth: "ecma_builtin_property_names ! i = string_id"
      by (auto simp: in_set_conv_nth)
    have "length ecma_builtin_property_names = 3" by (simp add: property_names_eq)
    with len nth have i: "i < 3" "ecma_builtin_property_names ! i = string_id" by simp_all
    have found: "ecma_builtin_bin_search_for_magic_string_id_in_array num
                   ecma_builtin_property_names ecma_builtin_boolean_prototype_property_number
                   string_id = int i"
      using search_sorted[OF assms(3) i(1)] i(2) by simp
    have i32: "i < 32" using i(1) by simp
    note eq = try_found[OF assms(1,2) Some found i32, of gc]
    have only: "k = i"
      if "k < length ecma_builtin_property_names"
        and "ecma_builtin_property_names ! k = string_id" for k
      using that i names_index_unique[of k i] by (simp add: property_names_eq)
    show ?thesis
    proof (cases "bit (internal_mask_0_31 obj) i")
      case False
      with eq Some i(2) len show ?thesis by auto
    next
      case set: True
      from instantiated_registered[OF True] obtain p w e c where
        "instantiated_value_and_attributes string_id = Inr (Object_value p, w, e, c)"
        by blast
      with eq set have
        "\<exists>pr obj' gc'.
           ecma_builtin_boolean_prototype_try_to_instantiate_property num obj name gc
             = Inr (Some pr, obj', gc')"
        by simp
      moreover have
        "\<not> (ecma_is_string_magic name = None
            \<or> (\<exists>string_id. ecma_is_string_magic name = Some string_id
                  \<and> string_id \<notin> set ecma_builtin_property_names)
            \<or> (\<exists>i < length ecma_builtin_property_names.
                  ecma_is_string_magic name = Some (ecma_builtin_property_names ! i)
                  \<and> \<not> bit (internal_mask_0_31 obj) i))"
        using Some True set only by auto
      ultimately show ?thesis by auto
    qed
  qed
qed

text \<open>
  On the example object, \<^verbatim>\<open>toString\<close> is instantiated, and a name that is not a
  magic string is not.
\<close>

theorem try_to_instantiate_failure_modes_witness:
  "ecma_builtin_is boolean_prototype_object ECMA_BUILTIN_ID_BOOLEAN_PROTOTYPE
   \<and> ecma_find_named_property boolean_prototype_object
        (Magic_string ECMA_MAGIC_STRING_TO_STRING_UL) = None
   \<and> ecma_find_named_property boolean_prototype_object (Chars_string ''length'') = None
   \<and> sorted_wrt (\<lambda>a b. example_numbering a < example_numbering b) ecma_builtin_property_names
   \<and> (\<exists>pr obj' gc'.
         ecma_builtin_boolean_prototype_try_to_instantiate_property example_numbering
           boolean_prototype_object (Magic_string ECMA_MAGIC_STRING_TO_STRING_UL) []
         = Inr (Some pr, obj', gc'))
   \<and> (\<exists>obj' gc'.
         ecma_builtin_boolean_prototype_try_to_instantiate_property example_numbering
           boolean_prototype_object (Chars_string ''length'') []
         = Inr (None, obj', gc'))"
proof -
  note pre = prototype_preconditions(1)
  note absent = prototype_preconditions(2)
  note sorted = example_numbering_sorted
  have bits: "bit (internal_mask_0_31 boolean_prototype_object) i"
    if "i < length ecma_builtin_property_names" for i
    using that
    by (auto simp: property_names_eq boolean_prototype_object_def less_Suc_eq numeral_3_eq_3
        bit_iff_odd)
  have magic: "ecma_is_string_magic (Magic_string ECMA_MAGIC_STRING_TO_STRING_UL)
               = Some ECMA_MAGIC_STRING_TO_STRING_UL"
    "ecma_is_string_magic (Chars_string ''length'') = None"
    by (simp_all add: ecma_is_string_magic_def)
  have registered: "ECMA_MAGIC_STRING_TO_STRING_UL \<in> set ecma_builtin_property_names"
    by (simp add: property_names_eq)
  from try_to_instantiate_failure_modes[OF pre absent sorted,
      where name = "Magic_string ECMA_MAGIC_STRING_TO_STRING_UL" and gc = "[]"]
    magic registered bits
  have "\<exists>pr obj' gc'.
         ecma_builtin_boolean_prototype_try_to_instantiate_property example_numbering
           boolean_prototype_object (Magic_string ECMA_MAGIC_STRING_TO_STRING_UL) []
         = Inr (Some pr, obj', gc')"
    by (metis not_Some_eq option.inject)
  moreover
  from try_to_instantiate_failure_modes[OF pre absent sorted,
      where name = "Chars_string ''length''" and gc = "[]"]
    magic
  have "\<exists>obj' gc'.
         ecma_builtin_boolean_prototype_try_to_instantiate_property example_numbering
           boolean_prototype_object (Chars_string ''length'') []
         = Inr (None, obj', gc')"
    by auto
  ultimately show ?thesis using pre absent sorted by simp
qed

text \<open>
  Claim C8. When \<^verbatim>\<open>try_to_instantiate_property\<close> returns a property, its attributes
  follow from the kind of the entry: for the routines \<^verbatim>\<open>toString\<close> and
  \<^verbatim>\<open>valueOf\<close> it is writable, not enumerable and configurable; for the object value
  \<^verbatim>\<open>constructor\<close> it is not writable, not enumerable and not configurable.
\<close>

theorem instantiated_property_attributes:
  assumes "ecma_builtin_boolean_prototype_try_to_instantiate_property num obj name gc
           = Inr (Some prop, obj', gc')"
  shows "((name = Magic_string ECMA_MAGIC_STRING_TO_STRING_UL
           \<or> name = Magic_string ECMA_MAGIC_STRING_VALUE_OF_UL)
          \<and> prop_writable prop = ECMA_PROPERTY_WRITABLE
          \<and> prop_enumerable prop = ECMA_PROPERTY_NOT_ENUMERABLE
          \<and> prop_configurable prop = ECMA_PROPERTY_CONFIGURABLE)
       \<or> (name = Magic_string ECMA_MAGIC_STRING_CONSTRUCTOR
          \<and> prop_writable prop = ECMA_PROPERTY_NOT_WRITABLE
          \<and> prop_enumerable prop = ECMA_PROPERTY_NOT_ENUMERABLE
          \<and> prop_configurable prop = ECMA_PROPERTY_NOT_CONFIGURABLE)"
  using assms
proof (cases rule: try_Inr_cases)
  case unchanged
  then show ?thesis by simp
next
  case (instantiated i p w e c)
  note name = is_string_magic_Some[OF instantiated(2)]
  from less_3_cases[OF instantiated(1)] show ?thesis
  proof (elim disjE)
    assume "i = 0"
    with instantiated(5,6) name instantiated_constructor show ?thesis
      by (simp add: property_names_eq)
  next
    assume "i = 1"
    with instantiated(5,6) name instantiated_routine[of ECMA_MAGIC_STRING_TO_STRING_UL]
    show ?thesis by (simp add: property_names_eq)
  next
    assume "i = 2"
    with instantiated(5,6) name instantiated_routine[of ECMA_MAGIC_STRING_VALUE_OF_UL]
    show ?thesis by (simp add: property_names_eq)
  qed
qed

text \<open>The properties \<^verbatim>\<open>toString\<close> and \<^verbatim>\<open>constructor\<close> of the example object.\<close>

theorem instantiated_property_attributes_witness:
  "ecma_builtin_boolean_prototype_try_to_instantiate_property example_numbering
     boolean_prototype_object (Magic_string ECMA_MAGIC_STRING_TO_STRING_UL) []
   = Inr (Some to_string_property,
          boolean_prototype_object
            \<lparr> internal_mask_0_31 := 5, named_properties := [to_string_property] \<rparr>,
          [Ecma_copy_value to_string_function False,
           Ecma_gc_update_may_ref_younger_object_flag_by_value to_string_function,
           Ecma_free_value to_string_function True])
   \<and> prop_writable to_string_property = ECMA_PROPERTY_WRITABLE
   \<and> prop_enumerable to_string_property = ECMA_PROPERTY_NOT_ENUMERABLE
   \<and> prop_configurable to_string_property = ECMA_PROPERTY_CONFIGURABLE
   \<and> ecma_builtin_boolean_prototype_try_to_instantiate_property example_numbering
     boolean_prototype_object (Magic_string ECMA_MAGIC_STRING_CONSTRUCTOR) []
   = Inr (Some constructor_property,
          boolean_prototype_object
            \<lparr> internal_mask_0_31 := 6, named_properties := [constructor_property] \<rparr>,
          [Ecma_copy_value boolean_constructor False,
           Ecma_gc_update_may_ref_younger_object_flag_by_value boolean_constructor,
           Ecma_free_value boolean_constructor True])
   \<and> prop_writable constructor_property = ECMA_PROPERTY_NOT_WRITABLE
   \<and> prop_enumerable constructor_property = ECMA_PROPERTY_NOT_ENUMERABLE
   \<and> prop_configurable constructor_property = ECMA_PROPERTY_NOT_CONFIGURABLE"
  using instantiated_property_attributes[OF example_instantiate_to_string]
    instantiated_property_attributes[OF example_instantiate_constructor]
    example_instantiate_to_string example_instantiate_constructor
  by simp

text \<open>
  Claim C9. In a run of \<^verbatim>\<open>try_to_instantiate_property\<close> that returns a property, the
  value stored in the property is an object reference, and the calls to the collector
  that the run adds are, in this order: the copy of the value, the update of the owning
  object's may-reference-younger flag for the stored value, and then the release of the
  local value. The flag is updated strictly before the release, never after it.
\<close>

theorem flag_before_release:
  assumes "ecma_builtin_boolean_prototype_try_to_instantiate_property num obj name gc
           = Inr (Some prop, obj', gc')"
  shows "\<exists>val. value_type (prop_value prop) = ECMA_TYPE_OBJECT
           \<and> gc' = gc @ [Ecma_copy_value val False,
                         Ecma_gc_update_may_ref_younger_object_flag_by_value (prop_value prop),
                         Ecma_free_value val True]"
  using assms
proof (cases rule: try_Inr_cases)
  case unchanged
  then show ?thesis by simp
next
  case (instantiated i p w e c)
  then show ?thesis by simp
qed

text \<open>The instantiation of \<^verbatim>\<open>toString\<close> on the example object.\<close>

theorem flag_before_release_witness:
  "ecma_builtin_boolean_prototype_try_to_instantiate_property example_numbering
     boolean_prototype_object (Magic_string ECMA_MAGIC_STRING_TO_STRING_UL) []
   = Inr (Some to_string_property,
          boolean_prototype_object
            \<lparr> internal_mask_0_31 := 5, named_properties := [to_string_property] \<rparr>,
          [Ecma_copy_value to_string_function False,
           Ecma_gc_update_may_ref_younger_object_flag_by_value to_string_function,
           Ecma_free_value to_string_function True])
   \<and> (\<exists>val. value_type (prop_value to_string_property) = ECMA_TYPE_OBJECT
         \<and> [Ecma_copy_value to_string_function False,
             Ecma_gc_update_may_ref_younger_object_flag_by_value to_string_function,
             Ecma_free_value to_string_function True]
           = [] @ [Ecma_copy_value val False,
                   Ecma_gc_update_may_ref_younger_object_flag_by_value
                     (prop_value to_string_property),
                   Ecma_free_value val True])"
  using flag_before_release[OF example_instantiate_to_string] example_instantiate_to_string
  by blast

end
